theory Spec2Isabelle
  imports
    Main
    "HOL-Library.Char_ord"
    "HOL-Library.List_Lexorder"
begin

section \<open>Key classifier: \<open>getKeyType\<close> and \<open>maskValue\<close>\<close>

text \<open>
  A JavaScript string is modelled as a \<^typ>\<open>string\<close>, one \<^typ>\<open>char\<close> per code unit.
  \<^verbatim>\<open>s.startsWith(p)\<close> compares the first \<open>p.length\<close> code units of \<open>s\<close> with \<open>p\<close>;
  \<^verbatim>\<open>s.slice(0, n)\<close> keeps the first \<open>n\<close> code units, fewer when \<open>s\<close> is shorter;
  \<^verbatim>\<open>s.repeat(n)\<close> concatenates \<open>n\<close> copies of \<open>s\<close>.
\<close>

definition startsWith :: "string \<Rightarrow> string \<Rightarrow> bool" where
  "startsWith s p = (take (length p) s = p)"

definition slice0 :: "string \<Rightarrow> nat \<Rightarrow> string" where
  "slice0 s n = take n s"

definition repeat :: "string \<Rightarrow> nat \<Rightarrow> string" where
  "repeat s n = concat (replicate n s)"

text \<open>
  \<^verbatim>\<open>
  export function getKeyType(value = "") {
    if (value.startsWith("prod_")) return "prod";
    if (value.startsWith("stg_")) return "stg";
    if (value.startsWith("dev_")) return "dev";
    return "custom";
  }
  \<close>
\<close>

definition getKeyType :: "string \<Rightarrow> string" where
  "getKeyType v =
     (if startsWith v ''prod_'' then ''prod''
      else if startsWith v ''stg_'' then ''stg''
      else if startsWith v ''dev_'' then ''dev''
      else ''custom'')"

text \<open>
  \<^verbatim>\<open>
  export function maskValue(value = "") {
    const type = getKeyType(value);
    const prefix = type === "custom" ? value.slice(0, 4) : `${type}-`;
    return `${prefix}${"*".repeat(30)}`;
  }
  \<close>
\<close>

definition maskValue :: "string \<Rightarrow> string" where
  "maskValue v =
     (let type = getKeyType v;
          prefix = (if type = ''custom'' then slice0 v 4 else type @ ''-'')
      in prefix @ repeat ''*'' 30)"

text \<open>
  Both functions declare the default parameter \<^verbatim>\<open>value = ""\<close>: a call without an argument
  (or with \<^verbatim>\<open>undefined\<close>) runs the body on the empty string.
\<close>

definition getKeyType_opt :: "string option \<Rightarrow> string" where
  "getKeyType_opt a = getKeyType (case a of None \<Rightarrow> [] | Some v \<Rightarrow> v)"

definition maskValue_opt :: "string option \<Rightarrow> string" where
  "maskValue_opt a = maskValue (case a of None \<Rightarrow> [] | Some v \<Rightarrow> v)"

section \<open>File-backed store of API keys\<close>

subsection \<open>Records, the data file and the sources of time and randomness\<close>

text \<open>
  An API-key record as the store writes it: five string fields
  \<^verbatim>\<open>id, name, value, createdAt, updatedAt\<close>.
\<close>

record ApiKeyRecord =
  key_id :: string
  key_name :: string
  key_value :: string
  createdAt :: string
  updatedAt :: string

text \<open>
  The store is the single file \<^verbatim>\<open>src/data/apiKeys.json\<close>. The state of that path is what
  the code can observe through \<^verbatim>\<open>fs.mkdir\<close>, \<^verbatim>\<open>fs.access\<close>, \<^verbatim>\<open>fs.readFile\<close>,
  \<^verbatim>\<open>fs.writeFile\<close> and \<^verbatim>\<open>JSON.parse\<close>:
  \<^item> \<open>NoFile\<close>: the file does not exist; the directory can be made and the file written;
  \<^item> \<open>EmptyText\<close>, \<open>Garbage\<close>: a file that is empty or is not JSON (\<^verbatim>\<open>JSON.parse\<close> throws on
    both); \<open>NonArray\<close>: JSON that is not an array; \<open>KeysArray\<close>: an array of records; all four
    can be read and written;
  \<^item> \<open>NotADirectory\<close>: a component of the directory path is not a directory, so every call on
    the path fails with \<open>ENOTDIR\<close>;
  \<^item> \<open>Unreadable\<close>: the file exists and cannot be opened (\<open>EACCES\<close> on reading and writing);
  \<^item> \<open>ReadOnly\<close>: the file holds an array of records and can be read but not written
    (\<open>EACCES\<close> on writing).

  \<^verbatim>\<open>JSON.stringify\<close> followed by \<^verbatim>\<open>JSON.parse\<close> gives back an array of such records
  unchanged, so a written array is kept as the list itself.
\<close>

datatype file_state =
    NoFile
  | EmptyText
  | Garbage
  | NonArray
  | KeysArray "ApiKeyRecord list"
  | NotADirectory
  | Unreadable
  | ReadOnly "ApiKeyRecord list"

datatype io_error = ENOENT | ENOTDIR | EACCES

text \<open>
  \<^verbatim>\<open>new Date().toISOString()\<close>, \<^verbatim>\<open>crypto.randomUUID()\<close> and
  \<^verbatim>\<open>crypto.randomBytes(18).toString("hex")\<close> read the outside world. The state carries what
  they will answer, indexed by the number of such reads made so far.
\<close>

record fs_state =
  data_file :: file_state
  tick :: nat
  now_iso :: "nat \<Rightarrow> string"
  random_uuid :: "nat \<Rightarrow> string"
  random_hex :: "nat \<Rightarrow> string"

text \<open>
  An \<^verbatim>\<open>async\<close> function either rejects with an error or returns a value; both leave a
  state behind. \<open>Inl\<close> is the rejection.
\<close>

type_synonym 'a promise = "(io_error \<times> fs_state) + ('a \<times> fs_state)"

definition toISOString_now :: "fs_state \<Rightarrow> string \<times> fs_state" where
  "toISOString_now s = (now_iso s (tick s), s\<lparr>tick := Suc (tick s)\<rparr>)"

definition randomUUID :: "fs_state \<Rightarrow> string \<times> fs_state" where
  "randomUUID s = (random_uuid s (tick s), s\<lparr>tick := Suc (tick s)\<rparr>)"

definition randomBytes18_hex :: "fs_state \<Rightarrow> string \<times> fs_state" where
  "randomBytes18_hex s = (random_hex s (tick s), s\<lparr>tick := Suc (tick s)\<rparr>)"

subsection \<open>The four file-system calls\<close>

text \<open>\<^verbatim>\<open>fs.mkdir(dataDirectoryPath, { recursive: true })\<close>: no error when the directory exists.\<close>

definition mkdir :: "fs_state \<Rightarrow> unit promise" where
  "mkdir s = (case data_file s of NotADirectory \<Rightarrow> Inl (ENOTDIR, s) | _ \<Rightarrow> Inr ((), s))"

text \<open>\<^verbatim>\<open>fs.access(dataFilePath)\<close>: tests that the file exists.\<close>

definition access :: "fs_state \<Rightarrow> unit promise" where
  "access s =
     (case data_file s of
        NoFile \<Rightarrow> Inl (ENOENT, s)
      | NotADirectory \<Rightarrow> Inl (ENOTDIR, s)
      | _ \<Rightarrow> Inr ((), s))"

text \<open>
  \<^verbatim>\<open>fs.readFile(dataFilePath, "utf-8")\<close>: the text of the file, given here as the state of a
  readable file.
\<close>

definition readFile :: "fs_state \<Rightarrow> file_state promise" where
  "readFile s =
     (case data_file s of
        NoFile \<Rightarrow> Inl (ENOENT, s)
      | NotADirectory \<Rightarrow> Inl (ENOTDIR, s)
      | Unreadable \<Rightarrow> Inl (EACCES, s)
      | ReadOnly xs \<Rightarrow> Inr (KeysArray xs, s)
      | contents \<Rightarrow> Inr (contents, s))"

text \<open>
  \<^verbatim>\<open>fs.writeFile(dataFilePath, JSON.stringify(apiKeys, null, 2), "utf-8")\<close>: creates the file
  or replaces its text.
\<close>

definition writeFile :: "ApiKeyRecord list \<Rightarrow> fs_state \<Rightarrow> unit promise" where
  "writeFile apiKeys s =
     (case data_file s of
        NotADirectory \<Rightarrow> Inl (ENOTDIR, s)
      | Unreadable \<Rightarrow> Inl (EACCES, s)
      | ReadOnly xs \<Rightarrow> Inl (EACCES, s)
      | _ \<Rightarrow> Inr ((), s\<lparr>data_file := KeysArray apiKeys\<rparr>))"

subsection \<open>Seeding\<close>

text \<open>
  \<^verbatim>\<open>
  function generateMockKeyValue(prefix) {
    const random = crypto.randomBytes(18).toString("hex");
    return `${prefix}_${random}`;
  }
  \<close>
\<close>

definition generateMockKeyValue :: "string \<Rightarrow> fs_state \<Rightarrow> string \<times> fs_state" where
  "generateMockKeyValue prefix s =
     (let (random, s1) = randomBytes18_hex s in (prefix @ ''_'' @ random, s1))"

text \<open>
  \<^verbatim>\<open>
  function generateSeedApiKeys() {
    const nowIso = new Date().toISOString();
    return [
      { id: crypto.randomUUID(), name: "Production Key",
        value: generateMockKeyValue("prod"), createdAt: nowIso, updatedAt: nowIso },
      { id: crypto.randomUUID(), name: "Staging Key",
        value: generateMockKeyValue("stg"), createdAt: nowIso, updatedAt: nowIso },
      { id: crypto.randomUUID(), name: "Local Dev Key",
        value: generateMockKeyValue("dev"), createdAt: nowIso, updatedAt: nowIso },
    ];
  }
  \<close>
  The clock is read once; the properties of each object literal are evaluated in the order
  written: the id, then the value.
\<close>

definition generateSeedApiKeys :: "fs_state \<Rightarrow> ApiKeyRecord list \<times> fs_state" where
  "generateSeedApiKeys s =
     (let (nowIso, s1) = toISOString_now s;
          (id1, s2) = randomUUID s1;
          (value1, s3) = generateMockKeyValue ''prod'' s2;
          (id2, s4) = randomUUID s3;
          (value2, s5) = generateMockKeyValue ''stg'' s4;
          (id3, s6) = randomUUID s5;
          (value3, s7) = generateMockKeyValue ''dev'' s6
      in ([\<lparr>key_id = id1, key_name = ''Production Key'', key_value = value1,
              createdAt = nowIso, updatedAt = nowIso\<rparr>,
           \<lparr>key_id = id2, key_name = ''Staging Key'', key_value = value2,
              createdAt = nowIso, updatedAt = nowIso\<rparr>,
           \<lparr>key_id = id3, key_name = ''Local Dev Key'', key_value = value3,
              createdAt = nowIso, updatedAt = nowIso\<rparr>], s7))"

text \<open>
  \<^verbatim>\<open>
  async function ensureDataFileExists() {
    try {
      await fs.mkdir(dataDirectoryPath, { recursive: true });
      await fs.access(dataFilePath);
    } catch {
      const seeds = generateSeedApiKeys();
      await fs.writeFile(dataFilePath, JSON.stringify(seeds, null, 2), "utf-8");
    }
  }
  \<close>
  A rejection of \<^verbatim>\<open>mkdir\<close> or of \<^verbatim>\<open>access\<close> is caught; the \<^verbatim>\<open>writeFile\<close> of the \<^verbatim>\<open>catch\<close>
  block is not guarded, so its rejection is the rejection of the function.
\<close>

definition ensureDataFileExists :: "fs_state \<Rightarrow> unit promise" where
  "ensureDataFileExists s =
     (case (case mkdir s of Inl failure \<Rightarrow> Inl failure | Inr (u, s1) \<Rightarrow> access s1) of
        Inr (u, s2) \<Rightarrow> Inr ((), s2)
      | Inl (e, s2) \<Rightarrow>
          (let (seeds, s3) = generateSeedApiKeys s2 in writeFile seeds s3))"

text \<open>
  \<^verbatim>\<open>
  async function writeAllApiKeys(apiKeys) {
    await ensureDataFileExists();
    await fs.writeFile(dataFilePath, JSON.stringify(apiKeys, null, 2), "utf-8");
  }
  \<close>
\<close>

definition writeAllApiKeys :: "ApiKeyRecord list \<Rightarrow> fs_state \<Rightarrow> unit promise" where
  "writeAllApiKeys apiKeys s =
     (case ensureDataFileExists s of
        Inl failure \<Rightarrow> Inl failure
      | Inr (u, s1) \<Rightarrow> writeFile apiKeys s1)"

text \<open>
  \<^verbatim>\<open>
  async function readAllApiKeys() {
    await ensureDataFileExists();
    const fileContents = await fs.readFile(dataFilePath, "utf-8");
    try {
      const parsed = JSON.parse(fileContents);
      if (Array.isArray(parsed) && parsed.length > 0) return parsed;
      const seeds = generateSeedApiKeys();
      await writeAllApiKeys(seeds);
      return seeds;
    } catch {
      const seeds = generateSeedApiKeys();
      await writeAllApiKeys(seeds);
      return seeds;
    }
  }
  \<close>
  The same three lines end the \<^verbatim>\<open>try\<close> block and make up the \<^verbatim>\<open>catch\<close> block; they are
  \<open>seedAndWrite\<close> here. The first two awaits are outside the \<^verbatim>\<open>try\<close>: their rejection is the
  rejection of the function. A rejection of \<^verbatim>\<open>writeAllApiKeys\<close> inside the \<^verbatim>\<open>try\<close> is caught,
  and the \<^verbatim>\<open>catch\<close> block seeds and writes once more, unguarded; \<^verbatim>\<open>JSON.parse\<close> throwing
  leads to the \<^verbatim>\<open>catch\<close> block directly.
\<close>

definition seedAndWrite :: "fs_state \<Rightarrow> ApiKeyRecord list promise" where
  "seedAndWrite s =
     (let (seeds, s1) = generateSeedApiKeys s in
      case writeAllApiKeys seeds s1 of
        Inl failure \<Rightarrow> Inl failure
      | Inr (u, s2) \<Rightarrow> Inr (seeds, s2))"

definition readAllApiKeys :: "fs_state \<Rightarrow> ApiKeyRecord list promise" where
  "readAllApiKeys s =
     (case ensureDataFileExists s of
        Inl failure \<Rightarrow> Inl failure
      | Inr (u, s1) \<Rightarrow>
          (case readFile s1 of
             Inl failure \<Rightarrow> Inl failure
           | Inr (fileContents, s2) \<Rightarrow>
               (case fileContents of
                  KeysArray parsed \<Rightarrow>
                    if length parsed > 0 then Inr (parsed, s2)
                    else (case seedAndWrite s2 of
                            Inr result \<Rightarrow> Inr result
                          | Inl (e, s3) \<Rightarrow> seedAndWrite s3)
                | NonArray \<Rightarrow>
                    (case seedAndWrite s2 of
                       Inr result \<Rightarrow> Inr result
                     | Inl (e, s3) \<Rightarrow> seedAndWrite s3)
                | _ \<Rightarrow> seedAndWrite s2)))"

subsection \<open>The exported operations\<close>

definition getAllApiKeys :: "fs_state \<Rightarrow> ApiKeyRecord list promise" where
  "getAllApiKeys s = readAllApiKeys s"

text \<open>
  \<^verbatim>\<open>
  export async function getApiKeyById(apiKeyId) {
    const all = await readAllApiKeys();
    return all.find((k) => k.id === apiKeyId) || null;
  }
  \<close>
\<close>

definition getApiKeyById :: "string \<Rightarrow> fs_state \<Rightarrow> ApiKeyRecord option promise" where
  "getApiKeyById apiKeyId s =
     (case readAllApiKeys s of
        Inl failure \<Rightarrow> Inl failure
      | Inr (allKeys, s1) \<Rightarrow> Inr (find (\<lambda>k. key_id k = apiKeyId) allKeys, s1))"

text \<open>
  \<^verbatim>\<open>
  export async function createApiKey({ name, value }) {
    const all = await readAllApiKeys();
    const nowIso = new Date().toISOString();
    const newKey = { id: crypto.randomUUID(), name, value, createdAt: nowIso, updatedAt: nowIso };
    all.push(newKey);
    await writeAllApiKeys(all);
    return newKey;
  }
  \<close>
\<close>

definition createApiKey :: "string \<Rightarrow> string \<Rightarrow> fs_state \<Rightarrow> ApiKeyRecord promise" where
  "createApiKey name val s =
     (case readAllApiKeys s of
        Inl failure \<Rightarrow> Inl failure
      | Inr (allKeys, s1) \<Rightarrow>
          (let (nowIso, s2) = toISOString_now s1;
               (uuid, s3) = randomUUID s2;
               newKey = \<lparr>key_id = uuid, key_name = name, key_value = val,
                          createdAt = nowIso, updatedAt = nowIso\<rparr>
           in case writeAllApiKeys (allKeys @ [newKey]) s3 of
                Inl failure \<Rightarrow> Inl failure
              | Inr (u, s4) \<Rightarrow> Inr (newKey, s4)))"

text \<open>
  \<^verbatim>\<open>findIndex\<close> gives the index of the first element that satisfies the test, and \<open>-1\<close>
  (here \<open>None\<close>) when there is none.
\<close>

primrec findIndex :: "('a \<Rightarrow> bool) \<Rightarrow> 'a list \<Rightarrow> nat option" where
  "findIndex P [] = None"
| "findIndex P (x # xs) = (if P x then Some 0 else map_option Suc (findIndex P xs))"

text \<open>
  \<^verbatim>\<open>
  export async function updateApiKey(apiKeyId, { name, value }) {
    const all = await readAllApiKeys();
    const index = all.findIndex((k) => k.id === apiKeyId);
    if (index === -1) return null;
    const existing = all[index];
    const updated = {
      ...existing,
      name: typeof name === "string" ? name : existing.name,
      value: typeof value === "string" ? value : existing.value,
      updatedAt: new Date().toISOString(),
    };
    all[index] = updated;
    await writeAllApiKeys(all);
    return updated;
  }
  \<close>
  A field of the partial is \<open>Some\<close> string, or \<open>None\<close> when it is not a string (omitted).
\<close>

definition updateApiKey ::
  "string \<Rightarrow> string option \<Rightarrow> string option \<Rightarrow> fs_state \<Rightarrow> ApiKeyRecord option promise" where
  "updateApiKey apiKeyId name val s =
     (case readAllApiKeys s of
        Inl failure \<Rightarrow> Inl failure
      | Inr (allKeys, s1) \<Rightarrow>
          (case findIndex (\<lambda>k. key_id k = apiKeyId) allKeys of
             None \<Rightarrow> Inr (None, s1)
           | Some index \<Rightarrow>
               (let existing = allKeys ! index;
                    (nowIso, s2) = toISOString_now s1;
                    updated = existing\<lparr>
                      key_name := (case name of Some n \<Rightarrow> n | None \<Rightarrow> key_name existing),
                      key_value := (case val of Some v \<Rightarrow> v | None \<Rightarrow> key_value existing),
                      updatedAt := nowIso\<rparr>
                in case writeAllApiKeys (allKeys[index := updated]) s2 of
                     Inl failure \<Rightarrow> Inl failure
                   | Inr (u, s3) \<Rightarrow> Inr (Some updated, s3))))"


section \<open>Remote table \<^verbatim>\<open>api_keys\<close>\<close>

text \<open>
  The route handlers talk to a Supabase table through the client library. Neither the service
  nor the table's schema is part of the repository, so the table is a parameter of the model:
  a list of rows with the five columns the handlers select, the answer the service gives to
  the next query (none, an \<^verbatim>\<open>{ error }\<close> result, or a thrown exception), and the column
  defaults the database fills in on insert (\<open>gen_id\<close>, \<open>db_now\<close>, and whether
  \<^verbatim>\<open>updated_at\<close> is stamped or left null).
\<close>

record row =
  row_id :: string
  row_name :: string
  row_value :: string
  created_at :: string
  updated_at :: "string option"

datatype fault = NoFault | ErrorResult string | Throws

datatype 'a query_result = Thrown | Failed string | Data 'a

record remote =
  rows :: "row list"
  fault :: fault
  serial :: nat
  gen_id :: "nat \<Rightarrow> string"
  db_now :: "nat \<Rightarrow> string"
  stamps_updated_at :: bool

definition PGRST116 :: string where
  "PGRST116 = ''JSON object requested, multiple (or no) rows returned''"

text \<open>
  \<^verbatim>\<open>.select(...).order("updated_at", { ascending: false })\<close>: descending, and rows whose
  \<^verbatim>\<open>updated_at\<close> is null first, as the database orders nulls when descending.
\<close>

definition order_updated_at_desc :: "row list \<Rightarrow> row list" where
  "order_updated_at_desc rs =
     filter (\<lambda>r. updated_at r = None) rs @
     rev (sort_key (\<lambda>r. case updated_at r of Some t \<Rightarrow> t | None \<Rightarrow> [])
            (filter (\<lambda>r. updated_at r \<noteq> None) rs))"

definition select_ordered :: "remote \<Rightarrow> row list query_result" where
  "select_ordered c =
     (case fault c of
        Throws \<Rightarrow> Thrown
      | ErrorResult m \<Rightarrow> Failed m
      | NoFault \<Rightarrow> Data (order_updated_at_desc (rows c)))"

text \<open>
  \<^verbatim>\<open>.eq("id", id).maybeSingle()\<close>: no matching row gives \<^verbatim>\<open>data: null\<close> without an error,
  one row gives the row, several rows give an error.
\<close>

definition select_maybeSingle :: "string \<Rightarrow> remote \<Rightarrow> row option query_result" where
  "select_maybeSingle ident c =
     (case fault c of
        Throws \<Rightarrow> Thrown
      | ErrorResult m \<Rightarrow> Failed m
      | NoFault \<Rightarrow>
          (case filter (\<lambda>r. row_id r = ident) (rows c) of
             [] \<Rightarrow> Data None
           | [r] \<Rightarrow> Data (Some r)
           | _ \<Rightarrow> Failed PGRST116))"

text \<open>
  \<^verbatim>\<open>.insert({ name, value }).select(...).single()\<close>: the database fills in the id and the
  timestamps; the one inserted row is returned.
\<close>

definition insert_single :: "string \<Rightarrow> string \<Rightarrow> remote \<Rightarrow> row option query_result \<times> remote" where
  "insert_single name val c =
     (case fault c of
        Throws \<Rightarrow> (Thrown, c)
      | ErrorResult m \<Rightarrow> (Failed m, c)
      | NoFault \<Rightarrow>
          (let stamp = db_now c (serial c);
               r = \<lparr>row_id = gen_id c (serial c), row_name = name, row_value = val,
                    created_at = stamp,
                    updated_at = (if stamps_updated_at c then Some stamp else None)\<rparr>
           in (Data (Some r), c\<lparr>rows := rows c @ [r], serial := Suc (serial c)\<rparr>)))"

text \<open>
  \<^verbatim>\<open>.update(updates).eq("id", id).select(...).single()\<close>: every row with that id gets the
  columns present in \<open>updates\<close>. \<^verbatim>\<open>.single()\<close> requires the result to be exactly one row:
  with no row, or several, the client returns an error (and the statement has no effect).
\<close>

definition apply_updates :: "string \<Rightarrow> string option \<Rightarrow> string option \<Rightarrow> row \<Rightarrow> row" where
  "apply_updates stamp name val r =
     r\<lparr>updated_at := Some stamp,
       row_name := (case name of Some n \<Rightarrow> n | None \<Rightarrow> row_name r),
       row_value := (case val of Some v \<Rightarrow> v | None \<Rightarrow> row_value r)\<rparr>"

definition update_single ::
  "string \<Rightarrow> string \<Rightarrow> string option \<Rightarrow> string option \<Rightarrow> remote
     \<Rightarrow> row option query_result \<times> remote" where
  "update_single ident stamp name val c =
     (case fault c of
        Throws \<Rightarrow> (Thrown, c)
      | ErrorResult m \<Rightarrow> (Failed m, c)
      | NoFault \<Rightarrow>
          (case filter (\<lambda>r. row_id r = ident) (rows c) of
             [r] \<Rightarrow>
               (Data (Some (apply_updates stamp name val r)),
                c\<lparr>rows := map (\<lambda>x. if row_id x = ident
                                     then apply_updates stamp name val x else x) (rows c)\<rparr>)
           | _ \<Rightarrow> (Failed PGRST116, c)))"


section \<open>Route handlers of \<^verbatim>\<open>/api/keys\<close> and \<^verbatim>\<open>/api/keys/[id]\<close>\<close>

text \<open>
  \<^verbatim>\<open>getSupabaseServerClient()\<close> returns \<^verbatim>\<open>null\<close> when the endpoint or the credential is
  not configured: \<open>supabase = None\<close>. The handlers read the clock with
  \<^verbatim>\<open>new Date().toISOString()\<close> and \<^verbatim>\<open>Date.now().toString()\<close>.
\<close>

record api_state =
  supabase :: "remote option"
  clock_reads :: nat
  date_iso :: "nat \<Rightarrow> string"
  date_ms :: "nat \<Rightarrow> string"

definition new_Date_toISOString :: "api_state \<Rightarrow> string \<times> api_state" where
  "new_Date_toISOString w = (date_iso w (clock_reads w), w\<lparr>clock_reads := Suc (clock_reads w)\<rparr>)"

definition Date_now_toString :: "api_state \<Rightarrow> string \<times> api_state" where
  "Date_now_toString w = (date_ms w (clock_reads w), w\<lparr>clock_reads := Suc (clock_reads w)\<rparr>)"

text \<open>A response is \<^verbatim>\<open>NextResponse.json(body, { status })\<close>; the status defaults to 200.\<close>

datatype json_body =
    Message string
  | Key ApiKeyRecord
  | Keys "ApiKeyRecord list"
  | Success

datatype response = Json json_body nat

text \<open>
  The body of a request after \<^verbatim>\<open>await request.json()\<close>: the call throws on a body that is
  not JSON; the body may be \<^verbatim>\<open>null\<close>; otherwise it is an object, of which the handlers
  read \<^verbatim>\<open>name\<close> and \<^verbatim>\<open>value\<close>. A field is \<open>Some\<close> string, or \<open>None\<close> when it is absent or
  null (fields of other JSON types are not modelled).
\<close>

datatype request_body = BadJson | NullBody | Object "string option" "string option"

definition falsy :: "string option \<Rightarrow> bool" where
  "falsy a = (case a of None \<Rightarrow> True | Some s \<Rightarrow> s = [])"

definition string_of :: "string option \<Rightarrow> string" where
  "string_of a = (case a of None \<Rightarrow> [] | Some s \<Rightarrow> s)"

definition toApiKey :: "row \<Rightarrow> ApiKeyRecord" where
  "toApiKey r =
     \<lparr>key_id = row_id r, key_name = row_name r, key_value = row_value r,
      createdAt = created_at r,
      updatedAt = (case updated_at r of Some u \<Rightarrow> u | None \<Rightarrow> created_at r)\<rparr>"

definition mockApiKeys :: "ApiKeyRecord list" where
  "mockApiKeys =
     [\<lparr>key_id = ''1'', key_name = ''OpenAI API Key'', key_value = ''sk-...'',
        createdAt = ''2024-01-15T10:00:00Z'', updatedAt = ''2024-01-15T10:00:00Z''\<rparr>,
      \<lparr>key_id = ''2'', key_name = ''Anthropic API Key'', key_value = ''sk-ant-...'',
        createdAt = ''2024-01-14T15:30:00Z'', updatedAt = ''2024-01-14T15:30:00Z''\<rparr>,
      \<lparr>key_id = ''3'', key_name = ''Google AI API Key'', key_value = ''AIza...'',
        createdAt = ''2024-01-13T09:15:00Z'', updatedAt = ''2024-01-13T09:15:00Z''\<rparr>]"

text \<open>The message \<^verbatim>\<open>'name' and 'value' are required\<close>, with its quote characters.\<close>

definition required_message :: string where
  "required_message =
     [CHR 0x27] @ ''name'' @ [CHR 0x27] @ '' and '' @ [CHR 0x27] @ ''value'' @ [CHR 0x27] @
     '' are required''"

definition internal_error :: response where
  "internal_error = Json (Message ''Internal server error'') 500"

definition not_configured :: response where
  "not_configured = Json (Message ''API not configured'') 503"

definition not_found :: response where
  "not_found = Json (Message ''Not found'') 404"

text \<open>
  \<^verbatim>\<open>
  export async function GET() {
    try {
      const supabase = getSupabaseServerClient();
      if (supabase) {
        const { data, error } = await supabase
          .from("api_keys")
          .select("id,name,value,created_at,updated_at")
          .order("updated_at", { ascending: false });
        if (error) {
          // Fall back to mock data on database error
          return NextResponse.json(mockApiKeys, { status: 200 });
        }
        return NextResponse.json(
          (data || []).map(r => ({
            id: r.id, name: r.name, value: r.value,
            createdAt: r.created_at, updatedAt: r.updated_at ?? r.created_at,
          }))
        );
      }
      // If Supabase is not configured, return mock data
      return NextResponse.json(mockApiKeys, { status: 200 });
    } catch (error) {
      // Return mock data on any error
      return NextResponse.json(mockApiKeys, { status: 200 });
    }
  }
  \<close>
  The whole body is in a \<^verbatim>\<open>try\<close>; the \<^verbatim>\<open>catch\<close> answers with the mock data and
  status 200, as do the branch for a query error and the one for a missing configuration.
\<close>

definition GET :: "api_state \<Rightarrow> response \<times> api_state" where
  "GET w =
     (case supabase w of
        Some client \<Rightarrow>
          (case select_ordered client of
             Thrown \<Rightarrow> (Json (Keys mockApiKeys) 200, w)
           | Failed m \<Rightarrow> (Json (Keys mockApiKeys) 200, w)
           | Data d \<Rightarrow> (Json (Keys (map toApiKey d)) 200, w))
      | None \<Rightarrow> (Json (Keys mockApiKeys) 200, w))"

text \<open>
  \<^verbatim>\<open>
  export async function POST(request) {
    try {
      const { name, value } = await request.json();
      if (!name || !value) {
        return NextResponse.json({ message: "'name' and 'value' are required" }, { status: 400 });
      }
      const supabase = getSupabaseServerClient();
      // If Supabase is configured, try to save to database
      if (supabase) {
        const { data, error } = await supabase
          .from("api_keys")
          .insert({ name, value })
          .select("id,name,value,created_at,updated_at")
          .single();
        if (error) {
          return NextResponse.json({ message: error.message }, { status: 500 });
        }
        return NextResponse.json({
          id: data.id, name: data.name, value: data.value,
          createdAt: data.created_at, updatedAt: data.updated_at ?? data.created_at,
        }, { status: 201 });
      }
      // If Supabase is not configured, return success but don't persist
      return NextResponse.json({
        id: Date.now().toString(),
        name,
        value: value.substring(0, 10) + "...",
        createdAt: new Date().toISOString(),
        updatedAt: new Date().toISOString(),
      }, { status: 201 });
    } catch (error) {
      return NextResponse.json({ message: "Internal server error" }, { status: 500 });
    }
  }
  \<close>
  Destructuring \<^verbatim>\<open>{ name, value }\<close> from a \<^verbatim>\<open>null\<close> body throws, like a body that is not
  JSON; both end in the \<^verbatim>\<open>catch\<close>. Without a client the handler answers 201 with a
  record it builds itself from three clock reads, and stores nothing.
\<close>

definition POST :: "request_body \<Rightarrow> api_state \<Rightarrow> response \<times> api_state" where
  "POST request w =
     (case request of
        BadJson \<Rightarrow> (internal_error, w)
      | NullBody \<Rightarrow> (internal_error, w)
      | Object name val \<Rightarrow>
          if falsy name \<or> falsy val
          then (Json (Message required_message) 400, w)
          else
            (case supabase w of
               Some client \<Rightarrow>
                 (case insert_single (string_of name) (string_of val) client of
                    (Thrown, client') \<Rightarrow> (internal_error, w\<lparr>supabase := Some client'\<rparr>)
                  | (Failed m, client') \<Rightarrow> (Json (Message m) 500, w\<lparr>supabase := Some client'\<rparr>)
                  | (Data None, client') \<Rightarrow> (internal_error, w\<lparr>supabase := Some client'\<rparr>)
                  | (Data (Some d), client') \<Rightarrow>
                      (Json (Key (toApiKey d)) 201, w\<lparr>supabase := Some client'\<rparr>))
             | None \<Rightarrow>
                 (let (ident, w1) = Date_now_toString w;
                      (created, w2) = new_Date_toISOString w1;
                      (updated, w3) = new_Date_toISOString w2
                  in (Json (Key \<lparr>key_id = ident, key_name = string_of name,
                                  key_value = take 10 (string_of val) @ ''...'',
                                  createdAt = created, updatedAt = updated\<rparr>) 201, w3))))"

text \<open>
  \<^verbatim>\<open>
  export async function GET(_req, { params }) {
    try {
      const supabase = getSupabaseServerClient();
      if (!supabase) {
        return NextResponse.json({ message: "API not configured" }, { status: 503 });
      }
      const { data, error } = await supabase
        .from("api_keys")
        .select("id,name,value,created_at,updated_at")
        .eq("id", params.id)
        .maybeSingle();
      if (error) return NextResponse.json({ message: error.message }, { status: 500 });
      if (!data) return NextResponse.json({ message: "Not found" }, { status: 404 });
      return NextResponse.json({
        id: data.id, name: data.name, value: data.value,
        createdAt: data.created_at, updatedAt: data.updated_at ?? data.created_at,
      });
    } catch (error) {
      return NextResponse.json({ message: "Internal server error" }, { status: 500 });
    }
  }
  \<close>
  This is the \<^verbatim>\<open>GET\<close> of \<^verbatim>\<open>/api/keys/[id]\<close>, named \<open>GET_by_id\<close> here.
\<close>

definition GET_by_id :: "string \<Rightarrow> api_state \<Rightarrow> response \<times> api_state" where
  "GET_by_id ident w =
     (case supabase w of
        None \<Rightarrow> (not_configured, w)
      | Some client \<Rightarrow>
          (case select_maybeSingle ident client of
             Thrown \<Rightarrow> (internal_error, w)
           | Failed m \<Rightarrow> (Json (Message m) 500, w)
           | Data None \<Rightarrow> (not_found, w)
           | Data (Some d) \<Rightarrow> (Json (Key (toApiKey d)) 200, w)))"

text \<open>
  \<^verbatim>\<open>
  export async function PUT(request, { params }) {
    try {
      const body = await request.json();
      const updates = { updated_at: new Date().toISOString() };
      if (typeof body?.name === "string") updates.name = body.name;
      if (typeof body?.value === "string") updates.value = body.value;
      const supabase = getSupabaseServerClient();
      if (!supabase) {
        return NextResponse.json({ message: "API not configured" }, { status: 503 });
      }
      const { data, error } = await supabase
        .from("api_keys")
        .update(updates)
        .eq("id", params.id)
        .select("id,name,value,created_at,updated_at")
        .single();
      if (error) return NextResponse.json({ message: error.message }, { status: 500 });
      if (!data) return NextResponse.json({ message: "Not found" }, { status: 404 });
      return NextResponse.json({
        id: data.id, name: data.name, value: data.value,
        createdAt: data.created_at, updatedAt: data.updated_at ?? data.created_at,
      });
    } catch (error) {
      return NextResponse.json({ message: "Internal server error" }, { status: 500 });
    }
  }
  \<close>
  The clock is read for \<^verbatim>\<open>updated_at\<close> before the client is looked up;
  \<^verbatim>\<open>body?.name\<close> on a \<^verbatim>\<open>null\<close> body is \<^verbatim>\<open>undefined\<close>.
\<close>

definition PUT :: "string \<Rightarrow> request_body \<Rightarrow> api_state \<Rightarrow> response \<times> api_state" where
  "PUT ident request w =
     (case request of
        BadJson \<Rightarrow> (internal_error, w)
      | _ \<Rightarrow>
          (let (stamp, w1) = new_Date_toISOString w;
               name = (case request of Object n v \<Rightarrow> n | _ \<Rightarrow> None);
               val = (case request of Object n v \<Rightarrow> v | _ \<Rightarrow> None)
           in case supabase w1 of
                None \<Rightarrow> (not_configured, w1)
              | Some client \<Rightarrow>
                  (case update_single ident stamp name val client of
                     (Thrown, client') \<Rightarrow> (internal_error, w1\<lparr>supabase := Some client'\<rparr>)
                   | (Failed m, client') \<Rightarrow>
                       (Json (Message m) 500, w1\<lparr>supabase := Some client'\<rparr>)
                   | (Data None, client') \<Rightarrow> (not_found, w1\<lparr>supabase := Some client'\<rparr>)
                   | (Data (Some d), client') \<Rightarrow>
                       (Json (Key (toApiKey d)) 200, w1\<lparr>supabase := Some client'\<rparr>))))"


section \<open>Auxiliary definitions for the statements\<close>

text \<open>
  The three records \<open>generateSeedApiKeys\<close> builds, written out: one clock read, then for each
  record an id and a random suffix, in that order.
\<close>

definition seed_records :: "fs_state \<Rightarrow> ApiKeyRecord list" where
  "seed_records s =
     [\<lparr>key_id = random_uuid s (tick s + 1), key_name = ''Production Key'',
        key_value = ''prod_'' @ random_hex s (tick s + 2),
        createdAt = now_iso s (tick s), updatedAt = now_iso s (tick s)\<rparr>,
      \<lparr>key_id = random_uuid s (tick s + 3), key_name = ''Staging Key'',
        key_value = ''stg_'' @ random_hex s (tick s + 4),
        createdAt = now_iso s (tick s), updatedAt = now_iso s (tick s)\<rparr>,
      \<lparr>key_id = random_uuid s (tick s + 5), key_name = ''Local Dev Key'',
        key_value = ''dev_'' @ random_hex s (tick s + 6),
        createdAt = now_iso s (tick s), updatedAt = now_iso s (tick s)\<rparr>]"

text \<open>
  The records held by the backend the route handlers write to: the rows of the remote table,
  as the handlers render them, and nothing when no client is configured.
\<close>

definition stored_keys :: "api_state \<Rightarrow> ApiKeyRecord list" where
  "stored_keys w = (case supabase w of None \<Rightarrow> [] | Some c \<Rightarrow> map toApiKey (rows c))"

text \<open>Concrete states, for the examples.\<close>

definition sample_iso :: "nat \<Rightarrow> string" where
  "sample_iso n = ''2025-01-01T00:00:00.000Z''"

definition sample_ms :: "nat \<Rightarrow> string" where
  "sample_ms n = ''1735689600000''"

definition sample_uuid :: "nat \<Rightarrow> string" where
  "sample_uuid n = ''uuid-'' @ replicate n CHR ''a''"

definition sample_hex :: "nat \<Rightarrow> string" where
  "sample_hex n = ''c0ffee'' @ replicate n CHR ''f''"

definition fresh_disk :: fs_state where
  "fresh_disk = \<lparr>data_file = NoFile, tick = 0, now_iso = sample_iso,
                  random_uuid = sample_uuid, random_hex = sample_hex\<rparr>"

definition stored_key :: ApiKeyRecord where
  "stored_key = \<lparr>key_id = ''k1'', key_name = ''K1'', key_value = ''prod_abc'',
                  createdAt = ''2024-12-31T23:59:59.000Z'',
                  updatedAt = ''2024-12-31T23:59:59.000Z''\<rparr>"

definition one_key_disk :: fs_state where
  "one_key_disk = fresh_disk\<lparr>data_file := KeysArray [stored_key]\<rparr>"

definition empty_table :: remote where
  "empty_table = \<lparr>rows = [], fault = NoFault, serial = 0, gen_id = sample_uuid,
                   db_now = sample_iso, stamps_updated_at = False\<rparr>"

definition stored_row :: row where
  "stored_row = \<lparr>row_id = ''k1'', row_name = ''K1'', row_value = ''prod_abc'',
                  created_at = ''2024-12-31T23:59:59.000Z'', updated_at = None\<rparr>"

definition one_row_table :: remote where
  "one_row_table = empty_table\<lparr>rows := [stored_row]\<rparr>"

definition unconfigured :: api_state where
  "unconfigured = \<lparr>supabase = None, clock_reads = 0, date_iso = sample_iso,
                    date_ms = sample_ms\<rparr>"

definition configured :: "remote \<Rightarrow> api_state" where
  "configured c = unconfigured\<lparr>supabase := Some c\<rparr>"

text \<open>
  A create request on a server without a configured client: the request, the record the
  handler answers with, and the state afterwards.
\<close>

definition create_request :: request_body where
  "create_request = Object (Some ''K1'') (Some ''prod_abcdefghijk'')"

definition echoed_key :: ApiKeyRecord where
  "echoed_key = \<lparr>key_id = ''1735689600000'', key_name = ''K1'', key_value = ''prod_abcde...'',
                  createdAt = ''2025-01-01T00:00:00.000Z'',
                  updatedAt = ''2025-01-01T00:00:00.000Z''\<rparr>"

definition after_create :: api_state where
  "after_create = unconfigured\<lparr>clock_reads := 3\<rparr>"

text \<open>A record with an empty name, as \<open>createApiKey\<close> builds it on \<open>one_key_disk\<close>.\<close>

definition nameless_key :: ApiKeyRecord where
  "nameless_key = \<lparr>key_id = ''uuid-a'', key_name = [], key_value = ''v'',
                    createdAt = ''2025-01-01T00:00:00.000Z'',
                    updatedAt = ''2025-01-01T00:00:00.000Z''\<rparr>"

text \<open>A request that renames a key, for an id that no record has.\<close>

definition rename_request :: request_body where
  "rename_request = Object (Some ''K1b'') None"

text \<open>
  A path in a regular state: every file-system call on it succeeds, apart from
  \<^verbatim>\<open>fs.access\<close> and \<^verbatim>\<open>fs.readFile\<close> on a file that does not exist yet.
\<close>

definition regular :: "fs_state \<Rightarrow> bool" where
  "regular s =
     (case data_file s of
        NotADirectory \<Rightarrow> False
      | Unreadable \<Rightarrow> False
      | ReadOnly xs \<Rightarrow> False
      | _ \<Rightarrow> True)"

text \<open>Two disks on which a file-system call fails.\<close>

definition broken_path_disk :: fs_state where
  "broken_path_disk = fresh_disk\<lparr>data_file := NotADirectory\<rparr>"

definition read_only_disk :: fs_state where
  "read_only_disk = fresh_disk\<lparr>data_file := ReadOnly [stored_key]\<rparr>"

section \<open>Properties of the key classifier\<close>

lemma startsWith_iff: "startsWith v p \<longleftrightarrow> (\<exists>r. v = p @ r)"
proof
  assume "startsWith v p"
  then have "v = p @ drop (length p) v"
    unfolding startsWith_def by (metis append_take_drop_id)
  then show "\<exists>r. v = p @ r" ..
next
  assume "\<exists>r. v = p @ r"
  then show "startsWith v p" by (auto simp: startsWith_def)
qed

lemma repeat_star: "repeat ''*'' n = replicate n CHR ''*''"
  by (induction n) (simp_all add: repeat_def)

lemma getKeyType_cases:
  "getKeyType v = ''prod'' \<or> getKeyType v = ''stg'' \<or> getKeyType v = ''dev''
   \<or> getKeyType v = ''custom''"
  by (simp add: getKeyType_def)

lemma getKeyType_prefixed:
  "getKeyType (''prod_'' @ r) = ''prod''"
  "getKeyType (''stg_'' @ r) = ''stg''"
  "getKeyType (''dev_'' @ r) = ''dev''"
  by (simp_all add: getKeyType_def startsWith_def)

text \<open>
  Claim C3. \<open>getKeyType\<close> is defined on every string and answers one of the four tags. The
  answer is \<open>prod\<close> exactly when the string is \<open>prod_\<close> followed by anything, \<open>stg\<close> exactly
  when it is \<open>stg_\<close> followed by anything, \<open>dev\<close> exactly when it is \<open>dev_\<close> followed by
  anything, and \<open>custom\<close> exactly when it has none of the three prefixes. The comparison is
  on the literal characters: \<open>prod_x\<close> is \<open>prod\<close>, while \<open>prodx\<close> (no underscore), \<open>PROD_x\<close>
  (other case) and the empty string are \<open>custom\<close>.
\<close>

theorem getKeyType_prefix_exact:
  "getKeyType v \<in> {''prod'', ''stg'', ''dev'', ''custom''}
   \<and> (getKeyType v = ''prod'' \<longleftrightarrow> (\<exists>r. v = ''prod_'' @ r))
   \<and> (getKeyType v = ''stg'' \<longleftrightarrow> (\<exists>r. v = ''stg_'' @ r))
   \<and> (getKeyType v = ''dev'' \<longleftrightarrow> (\<exists>r. v = ''dev_'' @ r))
   \<and> (getKeyType v = ''custom'' \<longleftrightarrow>
        \<not> ((\<exists>r. v = ''prod_'' @ r) \<or> (\<exists>r. v = ''stg_'' @ r) \<or> (\<exists>r. v = ''dev_'' @ r)))
   \<and> getKeyType ''prod_x'' = ''prod''
   \<and> getKeyType ''prodx'' = ''custom''
   \<and> getKeyType ''PROD_x'' = ''custom''
   \<and> getKeyType '''' = ''custom''"
proof -
  have a: "getKeyType v \<in> {''prod'', ''stg'', ''dev'', ''custom''}"
    using getKeyType_cases [of v] by auto
  have b: "getKeyType v = ''prod'' \<longleftrightarrow> (\<exists>r. v = ''prod_'' @ r)"
    by (simp add: getKeyType_def startsWith_iff)
  have c: "getKeyType v = ''stg'' \<longleftrightarrow> (\<exists>r. v = ''stg_'' @ r)"
    by (auto simp: getKeyType_def startsWith_iff)
  have d: "getKeyType v = ''dev'' \<longleftrightarrow> (\<exists>r. v = ''dev_'' @ r)"
    by (auto simp: getKeyType_def startsWith_iff)
  have e: "getKeyType v = ''custom'' \<longleftrightarrow>
        \<not> ((\<exists>r. v = ''prod_'' @ r) \<or> (\<exists>r. v = ''stg_'' @ r) \<or> (\<exists>r. v = ''dev_'' @ r))"
    by (simp add: getKeyType_def startsWith_iff)
  have f: "getKeyType ''prod_x'' = ''prod''" "getKeyType ''prodx'' = ''custom''"
    "getKeyType ''PROD_x'' = ''custom''" "getKeyType '''' = ''custom''"
    by (simp_all add: getKeyType_def startsWith_def)
  from a b c d e f show ?thesis by blast
qed

theorem getKeyType_prefix_exact_witness:
  "getKeyType ''stg_9f'' = ''stg'' \<and> getKeyType ''dev_'' = ''dev''
   \<and> getKeyType ''stg-9f'' = ''custom'' \<and> getKeyType ''xdev_1'' = ''custom''"
  using getKeyType_prefix_exact [of "''stg_9f''"] getKeyType_prefix_exact [of "''dev_''"]
    getKeyType_prefix_exact [of "''stg-9f''"] getKeyType_prefix_exact [of "''xdev_1''"]
  by simp

text \<open>
  Claim C4. For every string, \<open>maskValue\<close> is a prefix followed by exactly thirty stars. The
  prefix is the type tag and a hyphen when the type is \<open>prod\<close>, \<open>stg\<close> or \<open>dev\<close>, and the
  first four characters of the input (all of it when it is shorter) when the type is
  \<open>custom\<close>. So the length of the result is the length of the prefix plus thirty; the
  function has a result on every string; the empty string, and a missing argument, give
  thirty stars and nothing else.
\<close>

theorem maskValue_shape:
  "maskValue v =
     (if getKeyType v = ''custom'' then take 4 v else getKeyType v @ ''-'')
       @ replicate 30 CHR ''*''
   \<and> length (maskValue v) =
       length (if getKeyType v = ''custom'' then take 4 v else getKeyType v @ ''-'') + 30
   \<and> length (take 4 v) = min 4 (length v)
   \<and> maskValue '''' = replicate 30 CHR ''*''
   \<and> maskValue_opt None = replicate 30 CHR ''*''"
proof -
  have a: "maskValue v =
     (if getKeyType v = ''custom'' then take 4 v else getKeyType v @ ''-'')
       @ replicate 30 CHR ''*''"
    by (simp add: maskValue_def Let_def slice0_def repeat_star)
  have b: "length (maskValue v) =
       length (if getKeyType v = ''custom'' then take 4 v else getKeyType v @ ''-'') + 30"
    by (simp only: a length_append length_replicate)
  have c: "length (take 4 v) = min 4 (length v)" by (simp add: min.commute)
  have g: "getKeyType '''' = ''custom''" by (simp add: getKeyType_def startsWith_def)
  have d: "maskValue '''' = replicate 30 CHR ''*''"
    by (simp add: maskValue_def Let_def slice0_def repeat_star g)
  have e: "maskValue_opt None = replicate 30 CHR ''*''"
    by (simp add: maskValue_opt_def d)
  from a b c d e show ?thesis by blast
qed

theorem maskValue_shape_witness:
  "maskValue ''dev_secret'' = ''dev-'' @ replicate 30 CHR ''*''
   \<and> maskValue ''ab'' = ''ab'' @ replicate 30 CHR ''*''
   \<and> maskValue ''abcdefgh'' = ''abcd'' @ replicate 30 CHR ''*''"
  using maskValue_shape [of "''dev_secret''"] maskValue_shape [of "''ab''"]
    maskValue_shape [of "''abcdefgh''"]
  by (simp add: getKeyType_def startsWith_def)

text \<open>
  Claim C10. Two strings of the same recognised type (\<open>prod\<close>, \<open>stg\<close> or \<open>dev\<close>) have the
  same masked form: the mask of a recognised key is a function of its type alone.
\<close>

theorem maskValue_noninterference:
  assumes "getKeyType v1 = getKeyType v2"
    and "getKeyType v1 \<in> {''prod'', ''stg'', ''dev''}"
  shows "maskValue v1 = maskValue v2"
  using assms by (auto simp: maskValue_def Let_def)

theorem maskValue_noninterference_witness:
  "getKeyType ''prod_aaa'' = getKeyType ''prod_bbbbbbb''
   \<and> getKeyType ''prod_aaa'' \<in> {''prod'', ''stg'', ''dev''}
   \<and> maskValue ''prod_aaa'' = maskValue ''prod_bbbbbbb''"
proof -
  have h1: "getKeyType ''prod_aaa'' = getKeyType ''prod_bbbbbbb''"
    by (simp add: getKeyType_def startsWith_def)
  have h2: "getKeyType ''prod_aaa'' \<in> {''prod'', ''stg'', ''dev''}"
    by (simp add: getKeyType_def startsWith_def)
  show ?thesis using h1 h2 maskValue_noninterference [OF h1 h2] by simp
qed

section \<open>Properties of the file-backed store\<close>

lemma generateSeedApiKeys_eq:
  "generateSeedApiKeys s = (seed_records s, s\<lparr>tick := tick s + 7\<rparr>)"
  by (simp add: generateSeedApiKeys_def seed_records_def toISOString_now_def randomUUID_def
      generateMockKeyValue_def randomBytes18_hex_def Let_def eval_nat_numeral)

lemma seed_records_length: "seed_records s \<noteq> []" "length (seed_records s) = 3"
  by (simp_all add: seed_records_def)

lemma seed_records_types:
  "map (\<lambda>k. getKeyType (key_value k)) (seed_records s) = [''prod'', ''stg'', ''dev'']"
  using getKeyType_prefixed by (simp add: seed_records_def)

text \<open>What the functions of the store answer, by the state of the path.\<close>

lemma ensureDataFileExists_eq:
  "ensureDataFileExists s =
     (case data_file s of
        NoFile \<Rightarrow> Inr ((), s\<lparr>tick := tick s + 7, data_file := KeysArray (seed_records s)\<rparr>)
      | NotADirectory \<Rightarrow> Inl (ENOTDIR, s\<lparr>tick := tick s + 7\<rparr>)
      | _ \<Rightarrow> Inr ((), s))"
  by (cases "data_file s")
     (simp_all add: ensureDataFileExists_def mkdir_def access_def writeFile_def
        generateSeedApiKeys_eq)

lemma writeAllApiKeys_eq:
  "writeAllApiKeys ys s =
     (case data_file s of
        NoFile \<Rightarrow> Inr ((), s\<lparr>tick := tick s + 7, data_file := KeysArray ys\<rparr>)
      | NotADirectory \<Rightarrow> Inl (ENOTDIR, s\<lparr>tick := tick s + 7\<rparr>)
      | Unreadable \<Rightarrow> Inl (EACCES, s)
      | ReadOnly xs \<Rightarrow> Inl (EACCES, s)
      | _ \<Rightarrow> Inr ((), s\<lparr>data_file := KeysArray ys\<rparr>))"
  by (cases "data_file s")
     (simp_all add: writeAllApiKeys_def ensureDataFileExists_eq writeFile_def)

lemma seedAndWrite_eq:
  "seedAndWrite s =
     (case data_file s of
        NoFile \<Rightarrow> Inr (seed_records s,
                       s\<lparr>tick := tick s + 14, data_file := KeysArray (seed_records s)\<rparr>)
      | NotADirectory \<Rightarrow> Inl (ENOTDIR, s\<lparr>tick := tick s + 14\<rparr>)
      | Unreadable \<Rightarrow> Inl (EACCES, s\<lparr>tick := tick s + 7\<rparr>)
      | ReadOnly xs \<Rightarrow> Inl (EACCES, s\<lparr>tick := tick s + 7\<rparr>)
      | _ \<Rightarrow> Inr (seed_records s,
                  s\<lparr>tick := tick s + 7, data_file := KeysArray (seed_records s)\<rparr>))"
  by (cases "data_file s")
     (simp_all add: seedAndWrite_def generateSeedApiKeys_eq writeAllApiKeys_eq)

lemma readAllApiKeys_eq:
  "readAllApiKeys s =
     (case data_file s of
        KeysArray xs \<Rightarrow>
          if xs \<noteq> [] then Inr (xs, s)
          else Inr (seed_records s,
                    s\<lparr>tick := tick s + 7, data_file := KeysArray (seed_records s)\<rparr>)
      | NotADirectory \<Rightarrow> Inl (ENOTDIR, s\<lparr>tick := tick s + 7\<rparr>)
      | Unreadable \<Rightarrow> Inl (EACCES, s)
      | ReadOnly xs \<Rightarrow>
          if xs \<noteq> [] then Inr (xs, s) else Inl (EACCES, s\<lparr>tick := tick s + 14\<rparr>)
      | _ \<Rightarrow> Inr (seed_records s,
                  s\<lparr>tick := tick s + 7, data_file := KeysArray (seed_records s)\<rparr>))"
  by (cases "data_file s")
     (simp_all add: readAllApiKeys_def ensureDataFileExists_eq readFile_def seedAndWrite_eq
        seed_records_length)

lemma readAllApiKeys_post:
  assumes "readAllApiKeys s = Inr (xs, s')"
  shows "data_file s' = KeysArray xs \<or> data_file s' = ReadOnly xs" "xs \<noteq> []"
    "tick s \<le> tick s'"
    "now_iso s' = now_iso s" "random_uuid s' = random_uuid s" "random_hex s' = random_hex s"
  using assms
  by (auto simp: readAllApiKeys_eq seed_records_length split: file_state.splits if_splits)

lemma readAllApiKeys_stable:
  "data_file s = KeysArray xs \<Longrightarrow> xs \<noteq> [] \<Longrightarrow> readAllApiKeys s = Inr (xs, s)"
  by (simp add: readAllApiKeys_eq)


lemma readAllApiKeys_seeds:
  assumes "data_file s \<in> {NoFile, EmptyText, Garbage, NonArray, KeysArray []}"
  shows "readAllApiKeys s =
     Inr (seed_records s, s\<lparr>tick := tick s + 7, data_file := KeysArray (seed_records s)\<rparr>)"
  using assms by (auto simp: readAllApiKeys_eq)

lemma readAllApiKeys_regular:
  assumes "regular s"
  shows "\<exists>xs s'. readAllApiKeys s = Inr (xs, s') \<and> data_file s' = KeysArray xs"
  using assms by (cases "data_file s") (auto simp: readAllApiKeys_eq regular_def)

lemma readAllApiKeys_rejects:
  assumes "data_file s = NotADirectory \<or> data_file s = Unreadable \<or> data_file s = ReadOnly []"
  shows "\<exists>e s'. readAllApiKeys s = Inl (e, s')"
  using assms by (auto simp: readAllApiKeys_eq)


lemma createApiKey_eq:
  assumes "readAllApiKeys s = Inr (xs, s1)"
  shows "createApiKey name val s =
     (if data_file s1 = KeysArray xs
      then Inr (\<lparr>key_id = random_uuid s1 (Suc (tick s1)), key_name = name, key_value = val,
                 createdAt = now_iso s1 (tick s1), updatedAt = now_iso s1 (tick s1)\<rparr>,
               s1\<lparr>tick := Suc (Suc (tick s1)),
                  data_file := KeysArray (xs @
                    [\<lparr>key_id = random_uuid s1 (Suc (tick s1)), key_name = name,
                       key_value = val, createdAt = now_iso s1 (tick s1),
                       updatedAt = now_iso s1 (tick s1)\<rparr>])\<rparr>)
      else Inl (EACCES, s1\<lparr>tick := Suc (Suc (tick s1))\<rparr>))"
  using readAllApiKeys_post(1) [OF assms]
  by (auto simp: createApiKey_def assms toISOString_now_def randomUUID_def Let_def
        writeAllApiKeys_eq)

lemma createApiKey_written:
  assumes "createApiKey name val s = Inr (R, s')" "readAllApiKeys s = Inr (xs, s1)"
  shows "data_file s' = KeysArray (xs @ [R])" "key_name R = name" "key_value R = val"
    "createdAt R = updatedAt R" "key_id R = random_uuid s1 (Suc (tick s1))"
  using assms(1) unfolding createApiKey_eq [OF assms(2)] by (auto split: if_splits)

lemma createApiKey_regular:
  assumes "regular s"
  shows "\<exists>R s'. createApiKey name val s = Inr (R, s')"
proof -
  obtain xs s1 where r: "readAllApiKeys s = Inr (xs, s1)" and f: "data_file s1 = KeysArray xs"
    using readAllApiKeys_regular [OF assms] by blast
  show ?thesis unfolding createApiKey_eq [OF r] using f by simp
qed

text \<open>
  A create on a file that can be read but not written: the listing is read, the clock and
  the random source are read, and the write rejects; nothing is stored.
\<close>

lemma createApiKey_rejects_read_only:
  "createApiKey ''K1'' ''prod_abc'' read_only_disk = Inl (EACCES, read_only_disk\<lparr>tick := 2\<rparr>)"
proof -
  have r: "readAllApiKeys read_only_disk = Inr ([stored_key], read_only_disk)"
    by (simp add: readAllApiKeys_eq read_only_disk_def)
  show ?thesis
    unfolding createApiKey_eq [OF r]
    by (simp add: read_only_disk_def fresh_disk_def eval_nat_numeral)
qed

lemma find_append_fresh:
  "\<forall>x \<in> set xs. \<not> P x \<Longrightarrow> P y \<Longrightarrow> find P (xs @ [y]) = Some y"
  by (induction xs) auto


lemma getApiKeyById_eq:
  assumes "readAllApiKeys s = Inr (xs, s1)"
  shows "getApiKeyById ident s = Inr (find (\<lambda>k. key_id k = ident) xs, s1)"
  by (simp add: getApiKeyById_def assms)

lemma findIndex_None_iff: "findIndex P xs = None \<longleftrightarrow> (\<forall>x \<in> set xs. \<not> P x)"
  by (induction xs) auto

lemma findIndex_Some:
  "findIndex P xs = Some i \<Longrightarrow> i < length xs \<and> P (xs ! i) \<and> (\<forall>j < i. \<not> P (xs ! j))"
proof (induction xs arbitrary: i)
  case Nil
  then show ?case by simp
next
  case (Cons x xs)
  show ?case
  proof (cases "P x")
    case True
    with Cons.prems show ?thesis by simp
  next
    case False
    with Cons.prems obtain k where k: "findIndex P xs = Some k" "i = Suc k" by auto
    from Cons.IH [OF k(1)] False k(2) show ?thesis
      by (auto simp: less_Suc_eq_0_disj)
  qed
qed

lemma updateApiKey_missing:
  assumes "readAllApiKeys s = Inr (xs, s1)" and "ident \<notin> key_id ` set xs"
  shows "updateApiKey ident name val s = Inr (None, s1)"
proof -
  have "findIndex (\<lambda>k. key_id k = ident) xs = None"
    using assms(2) by (auto simp: findIndex_None_iff)
  then show ?thesis by (simp add: updateApiKey_def assms(1))
qed

lemma updateApiKey_found:
  assumes "readAllApiKeys s = Inr (xs, s1)"
    and "findIndex (\<lambda>k. key_id k = ident) xs = Some i"
    and "data_file s1 = KeysArray xs"
  shows "updateApiKey ident name val s =
     Inr (Some ((xs ! i)\<lparr>key_name := (case name of Some n \<Rightarrow> n | None \<Rightarrow> key_name (xs ! i)),
                         key_value := (case val of Some v \<Rightarrow> v | None \<Rightarrow> key_value (xs ! i)),
                         updatedAt := now_iso s1 (tick s1)\<rparr>),
          s1\<lparr>tick := Suc (tick s1),
             data_file := KeysArray (xs[i := (xs ! i)\<lparr>
                         key_name := (case name of Some n \<Rightarrow> n | None \<Rightarrow> key_name (xs ! i)),
                         key_value := (case val of Some v \<Rightarrow> v | None \<Rightarrow> key_value (xs ! i)),
                         updatedAt := now_iso s1 (tick s1)\<rparr>])\<rparr>)"
  using assms(3)
  by (simp add: updateApiKey_def assms(1,2) toISOString_now_def Let_def writeAllApiKeys_eq)


text \<open>
  Claim C9. Reading the store when the file is missing, empty, not JSON, not an array or an
  empty array writes and returns exactly three records. Their values are \<open>prod_\<close>, \<open>stg_\<close>
  and \<open>dev_\<close>, each followed by a suffix drawn from the random source, and \<open>getKeyType\<close>
  classifies them as \<open>prod\<close>, \<open>stg\<close> and \<open>dev\<close>, in this order.
\<close>

theorem seed_three_one_of_each:
  assumes "data_file s \<in> {NoFile, EmptyText, Garbage, NonArray, KeysArray []}"
  shows "\<exists>seeds s'. getAllApiKeys s = Inr (seeds, s')
           \<and> seeds = fst (generateSeedApiKeys s)
           \<and> data_file s' = KeysArray seeds
           \<and> length seeds = 3
           \<and> map key_value seeds =
               [''prod_'' @ random_hex s (tick s + 2),
                ''stg_'' @ random_hex s (tick s + 4),
                ''dev_'' @ random_hex s (tick s + 6)]
           \<and> map (\<lambda>k. getKeyType (key_value k)) seeds = [''prod'', ''stg'', ''dev'']"
proof -
  have r: "getAllApiKeys s =
     Inr (seed_records s, s\<lparr>tick := tick s + 7, data_file := KeysArray (seed_records s)\<rparr>)"
    unfolding getAllApiKeys_def by (rule readAllApiKeys_seeds [OF assms])
  have v: "map key_value (seed_records s) =
               [''prod_'' @ random_hex s (tick s + 2),
                ''stg_'' @ random_hex s (tick s + 4),
                ''dev_'' @ random_hex s (tick s + 6)]"
    by (simp add: seed_records_def)
  show ?thesis
    using r v seed_records_length(2) [of s] seed_records_types [of s]
    by (simp add: generateSeedApiKeys_eq)
qed

theorem seed_three_one_of_each_witness:
  "data_file fresh_disk \<in> {NoFile, EmptyText, Garbage, NonArray, KeysArray []}
   \<and> (\<exists>seeds s'. getAllApiKeys fresh_disk = Inr (seeds, s')
         \<and> data_file s' = KeysArray seeds
         \<and> map key_value seeds = [''prod_c0ffeeff'', ''stg_c0ffeeffff'', ''dev_c0ffeeffffff'']
         \<and> map (\<lambda>k. getKeyType (key_value k)) seeds = [''prod'', ''stg'', ''dev''])"
proof -
  have h: "data_file fresh_disk \<in> {NoFile, EmptyText, Garbage, NonArray, KeysArray []}"
    by (simp add: fresh_disk_def)
  have hex: "random_hex fresh_disk (tick fresh_disk + 2) = ''c0ffeeff''"
    "random_hex fresh_disk (tick fresh_disk + 4) = ''c0ffeeffff''"
    "random_hex fresh_disk (tick fresh_disk + 6) = ''c0ffeeffffff''"
    by (simp_all add: fresh_disk_def sample_hex_def eval_nat_numeral)
  show ?thesis using h hex seed_three_one_of_each [OF h] by auto
qed

section \<open>Properties of the route handlers\<close>

lemma GET_answers_200: "\<exists>keys. GET w = (Json (Keys keys) 200, w)"
  by (simp add: GET_def select_ordered_def split: option.splits fault.splits)

lemma GET_unconfigured: "supabase w = None \<Longrightarrow> GET w = (Json (Keys mockApiKeys) 200, w)"
  by (simp add: GET_def)

lemma GET_faulty:
  "supabase w = Some c \<Longrightarrow> fault c \<noteq> NoFault \<Longrightarrow> GET w = (Json (Keys mockApiKeys) 200, w)"
  by (simp add: GET_def select_ordered_def split: fault.splits)

lemma GET_healthy:
  "supabase w = Some c \<Longrightarrow> fault c = NoFault \<Longrightarrow>
     GET w = (Json (Keys (map toApiKey (order_updated_at_desc (rows c)))) 200, w)"
  by (simp add: GET_def select_ordered_def)

text \<open>
  Claim C2, as the code has it. The list handler \<open>GET\<close> answers status 200 with a list of
  records in every state, and leaves the state as it was; when no client is configured, when
  the query returns an error and when the query throws, the list is the mock data. The
  listing of the file store writes and returns the three generated seed records when the
  file is missing, empty, not JSON, not an array or an empty array (the path being in a
  regular state), and returns a stored non-empty array as it is. It does not catch the
  errors of the file system: on a path that is not a directory, on a file that cannot be
  read, and on an empty array in a file that cannot be written, the listing rejects.
\<close>

theorem list_handler_never_fails:
  "(\<exists>keys. GET w = (Json (Keys keys) 200, w))
   \<and> (supabase w = None \<longrightarrow> GET w = (Json (Keys mockApiKeys) 200, w))
   \<and> (\<forall>c m. supabase w = Some c \<and> fault c = ErrorResult m
         \<longrightarrow> GET w = (Json (Keys mockApiKeys) 200, w))
   \<and> (\<forall>c. supabase w = Some c \<and> fault c = Throws
         \<longrightarrow> GET w = (Json (Keys mockApiKeys) 200, w))
   \<and> (data_file s \<in> {NoFile, EmptyText, Garbage, NonArray, KeysArray []} \<longrightarrow>
        (\<exists>s'. getAllApiKeys s = Inr (fst (generateSeedApiKeys s), s')
              \<and> data_file s' = KeysArray (fst (generateSeedApiKeys s))
              \<and> length (fst (generateSeedApiKeys s)) = 3))
   \<and> (\<forall>xs. data_file s = KeysArray xs \<and> xs \<noteq> [] \<longrightarrow> getAllApiKeys s = Inr (xs, s))
   \<and> (data_file s = NotADirectory \<or> data_file s = Unreadable \<or> data_file s = ReadOnly []
        \<longrightarrow> (\<exists>e s'. getAllApiKeys s = Inl (e, s')))"
proof -
  have a: "\<exists>keys. GET w = (Json (Keys keys) 200, w)" by (rule GET_answers_200)
  have b: "supabase w = None \<longrightarrow> GET w = (Json (Keys mockApiKeys) 200, w)"
    by (simp add: GET_unconfigured)
  have c: "\<forall>c m. supabase w = Some c \<and> fault c = ErrorResult m
         \<longrightarrow> GET w = (Json (Keys mockApiKeys) 200, w)"
    by (simp add: GET_faulty)
  have d: "\<forall>c. supabase w = Some c \<and> fault c = Throws
         \<longrightarrow> GET w = (Json (Keys mockApiKeys) 200, w)"
    by (simp add: GET_faulty)
  have e: "data_file s \<in> {NoFile, EmptyText, Garbage, NonArray, KeysArray []} \<longrightarrow>
        (\<exists>s'. getAllApiKeys s = Inr (fst (generateSeedApiKeys s), s')
              \<and> data_file s' = KeysArray (fst (generateSeedApiKeys s))
              \<and> length (fst (generateSeedApiKeys s)) = 3)"
    by (simp add: getAllApiKeys_def readAllApiKeys_seeds generateSeedApiKeys_eq
        seed_records_length)
  have f: "\<forall>xs. data_file s = KeysArray xs \<and> xs \<noteq> [] \<longrightarrow> getAllApiKeys s = Inr (xs, s)"
    by (simp add: getAllApiKeys_def readAllApiKeys_stable)
  have g: "data_file s = NotADirectory \<or> data_file s = Unreadable \<or> data_file s = ReadOnly []
        \<longrightarrow> (\<exists>e s'. getAllApiKeys s = Inl (e, s'))"
    using readAllApiKeys_rejects [of s] by (simp add: getAllApiKeys_def)
  from a b c d e f g show ?thesis by blast
qed

theorem list_handler_never_fails_witness:
  "GET unconfigured = (Json (Keys mockApiKeys) 200, unconfigured)
   \<and> GET (configured (empty_table\<lparr>fault := ErrorResult ''fetch failed''\<rparr>)) =
       (Json (Keys mockApiKeys) 200, configured (empty_table\<lparr>fault := ErrorResult ''fetch failed''\<rparr>))
   \<and> GET (configured (empty_table\<lparr>fault := Throws\<rparr>)) =
       (Json (Keys mockApiKeys) 200, configured (empty_table\<lparr>fault := Throws\<rparr>))
   \<and> (\<exists>s'. getAllApiKeys (fresh_disk\<lparr>data_file := Garbage\<rparr>) =
               Inr (fst (generateSeedApiKeys (fresh_disk\<lparr>data_file := Garbage\<rparr>)), s')
          \<and> data_file s' = KeysArray (fst (generateSeedApiKeys (fresh_disk\<lparr>data_file := Garbage\<rparr>))))
   \<and> getAllApiKeys one_key_disk = Inr ([stored_key], one_key_disk)
   \<and> (\<exists>e s'. getAllApiKeys (fresh_disk\<lparr>data_file := Unreadable\<rparr>) = Inl (e, s'))"
proof -
  have h1: "supabase unconfigured = None" by (simp add: unconfigured_def)
  have h2: "supabase (configured (empty_table\<lparr>fault := ErrorResult ''fetch failed''\<rparr>)) =
              Some (empty_table\<lparr>fault := ErrorResult ''fetch failed''\<rparr>)
            \<and> fault (empty_table\<lparr>fault := ErrorResult ''fetch failed''\<rparr>) =
              ErrorResult ''fetch failed''"
    by (simp add: configured_def)
  have h3: "supabase (configured (empty_table\<lparr>fault := Throws\<rparr>)) =
              Some (empty_table\<lparr>fault := Throws\<rparr>)
            \<and> fault (empty_table\<lparr>fault := Throws\<rparr>) = Throws"
    by (simp add: configured_def)
  have h4: "data_file (fresh_disk\<lparr>data_file := Garbage\<rparr>)
              \<in> {NoFile, EmptyText, Garbage, NonArray, KeysArray []}"
    by simp
  have h5: "data_file one_key_disk = KeysArray [stored_key] \<and> [stored_key] \<noteq> []"
    by (simp add: one_key_disk_def)
  have h6: "data_file (fresh_disk\<lparr>data_file := Unreadable\<rparr>) = Unreadable" by simp
  note t1 = list_handler_never_fails [of unconfigured "fresh_disk\<lparr>data_file := Garbage\<rparr>"]
  note t2 = list_handler_never_fails
    [of "configured (empty_table\<lparr>fault := ErrorResult ''fetch failed''\<rparr>)" one_key_disk]
  note t3 = list_handler_never_fails
    [of "configured (empty_table\<lparr>fault := Throws\<rparr>)"
        "fresh_disk\<lparr>data_file := Unreadable\<rparr>"]
  have a: "GET unconfigured = (Json (Keys mockApiKeys) 200, unconfigured)"
    using t1 [THEN conjunct2, THEN conjunct1] h1 by (rule mp)
  have b: "GET (configured (empty_table\<lparr>fault := ErrorResult ''fetch failed''\<rparr>)) =
       (Json (Keys mockApiKeys) 200, configured (empty_table\<lparr>fault := ErrorResult ''fetch failed''\<rparr>))"
    using t2 [THEN conjunct2, THEN conjunct2, THEN conjunct1] h2 by blast
  have c: "GET (configured (empty_table\<lparr>fault := Throws\<rparr>)) =
       (Json (Keys mockApiKeys) 200, configured (empty_table\<lparr>fault := Throws\<rparr>))"
    using t3 [THEN conjunct2, THEN conjunct2, THEN conjunct2, THEN conjunct1] h3 by blast
  have d: "\<exists>s'. getAllApiKeys (fresh_disk\<lparr>data_file := Garbage\<rparr>) =
               Inr (fst (generateSeedApiKeys (fresh_disk\<lparr>data_file := Garbage\<rparr>)), s')
          \<and> data_file s' = KeysArray (fst (generateSeedApiKeys (fresh_disk\<lparr>data_file := Garbage\<rparr>)))"
    using t1 [THEN conjunct2, THEN conjunct2, THEN conjunct2, THEN conjunct2, THEN conjunct1] h4
    by blast
  have e: "getAllApiKeys one_key_disk = Inr ([stored_key], one_key_disk)"
    using t2 [THEN conjunct2, THEN conjunct2, THEN conjunct2, THEN conjunct2, THEN conjunct2,
              THEN conjunct1] h5
    by blast
  have f: "\<exists>e s'. getAllApiKeys (fresh_disk\<lparr>data_file := Unreadable\<rparr>) = Inl (e, s')"
    using t3 [THEN conjunct2, THEN conjunct2, THEN conjunct2, THEN conjunct2, THEN conjunct2,
              THEN conjunct2] h6
    by blast
  from a b c d e f show ?thesis by blast
qed

text \<open>
  The claim as written fails for the listing of the file store: when a component of the
  directory path is not a directory, \<^verbatim>\<open>fs.mkdir\<close> fails, the \<^verbatim>\<open>catch\<close> block of
  \<open>ensureDataFileExists\<close> generates the seeds (seven reads of the clock and the random source)
  and its \<^verbatim>\<open>fs.writeFile\<close> fails in turn, and the listing rejects with that error instead of
  returning seed data.
\<close>

theorem file_listing_rejects:
  "getAllApiKeys broken_path_disk = Inl (ENOTDIR, broken_path_disk\<lparr>tick := 7\<rparr>)"
  by (simp add: getAllApiKeys_def readAllApiKeys_eq broken_path_disk_def fresh_disk_def)
lemma POST_invalid:
  "falsy name \<or> falsy val \<Longrightarrow>
     POST (Object name val) w = (Json (Message required_message) 400, w)"
  by (simp add: POST_def)

lemma POST_remote_ok:
  assumes "supabase w = Some c" "fault c = NoFault" "\<not> falsy name" "\<not> falsy val"
  shows "POST (Object name val) w =
     (Json (Key \<lparr>key_id = gen_id c (serial c), key_name = string_of name,
                  key_value = string_of val, createdAt = db_now c (serial c),
                  updatedAt = db_now c (serial c)\<rparr>) 201,
      w\<lparr>supabase := Some (c\<lparr>rows := rows c @
            [\<lparr>row_id = gen_id c (serial c), row_name = string_of name,
               row_value = string_of val, created_at = db_now c (serial c),
               updated_at = (if stamps_updated_at c then Some (db_now c (serial c)) else None)\<rparr>],
          serial := Suc (serial c)\<rparr>)\<rparr>)"
  using assms by (simp add: POST_def insert_single_def toApiKey_def Let_def)

lemma POST_created_remote:
  assumes "POST request w = (Json (Key R) 201, w')" "supabase w = Some c"
  shows "fault c = NoFault \<and> (\<exists>name val. request = Object name val \<and> \<not> falsy name \<and> \<not> falsy val)"
  using assms
  by (cases request; cases "fault c")
     (auto simp: POST_def insert_single_def internal_error_def Let_def split: if_splits)

lemma POST_unconfigured_ok:
  assumes "supabase w = None" "\<not> falsy name" "\<not> falsy val"
  shows "POST (Object name val) w =
     (Json (Key \<lparr>key_id = date_ms w (clock_reads w), key_name = string_of name,
                  key_value = take 10 (string_of val) @ ''...'',
                  createdAt = date_iso w (Suc (clock_reads w)),
                  updatedAt = date_iso w (Suc (Suc (clock_reads w)))\<rparr>) 201,
      w\<lparr>clock_reads := Suc (Suc (Suc (clock_reads w)))\<rparr>)"
  using assms
  by (simp add: POST_def Date_now_toString_def new_Date_toISOString_def Let_def)

lemma POST_unconfigured_keeps:
  assumes "supabase w = None" "POST request w = (resp, w')"
  shows "supabase w' = None"
  using assms
  by (cases request)
     (auto simp: POST_def Date_now_toString_def new_Date_toISOString_def Let_def
        split: if_splits)

lemma POST_example: "POST create_request unconfigured = (Json (Key echoed_key) 201, after_create)"
proof -
  have "supabase unconfigured = None" by (simp add: unconfigured_def)
  moreover have "\<not> falsy (Some ''K1'')" "\<not> falsy (Some ''prod_abcdefghijk'')"
    by (simp_all add: falsy_def)
  ultimately show ?thesis
    unfolding create_request_def
    by (simp add: POST_unconfigured_ok echoed_key_def after_create_def unconfigured_def
        sample_ms_def sample_iso_def string_of_def eval_nat_numeral)
qed

text \<open>
  Claim C1, as the code has it. A create that answers with a new record has stored that
  record before it returns in two cases: the handler \<open>POST\<close> with a configured client (the
  row is in the remote table), and \<open>createApiKey\<close> of the file store (the record is in the
  file). With no client configured, \<open>POST\<close> still answers 201 with a record, and no backend
  holds it afterwards.
\<close>

theorem create_persists_when_backed:
  "(supabase w = Some c \<and> POST request w = (Json (Key R) 201, w')
      \<longrightarrow> R \<in> set (stored_keys w'))
   \<and> (createApiKey name val s = Inr (K, s')
      \<longrightarrow> (\<exists>xs. data_file s' = KeysArray xs \<and> K \<in> set xs))
   \<and> (supabase w = None \<and> POST request w = (Json (Key R) 201, w')
      \<longrightarrow> supabase w' = None \<and> stored_keys w' = [])"
proof -
  have a: "supabase w = Some c \<and> POST request w = (Json (Key R) 201, w')
      \<longrightarrow> R \<in> set (stored_keys w')"
  proof
    assume h: "supabase w = Some c \<and> POST request w = (Json (Key R) 201, w')"
    then obtain name val where r: "fault c = NoFault" "request = Object name val"
      "\<not> falsy name" "\<not> falsy val"
      using POST_created_remote by blast
    from h show "R \<in> set (stored_keys w')"
      unfolding r(2) POST_remote_ok [OF conjunct1 [OF h] r(1) r(3) r(4)]
      by (auto simp: stored_keys_def toApiKey_def)
  qed
  have b: "createApiKey name val s = Inr (K, s')
      \<longrightarrow> (\<exists>xs. data_file s' = KeysArray xs \<and> K \<in> set xs)"
  proof
    assume h: "createApiKey name val s = Inr (K, s')"
    then obtain xs s1 where r: "readAllApiKeys s = Inr (xs, s1)"
      by (cases "readAllApiKeys s") (auto simp: createApiKey_def)
    from createApiKey_written(1) [OF h r] show "\<exists>xs. data_file s' = KeysArray xs \<and> K \<in> set xs"
      by simp
  qed
  have d: "supabase w = None \<and> POST request w = (Json (Key R) 201, w')
      \<longrightarrow> supabase w' = None \<and> stored_keys w' = []"
    using POST_unconfigured_keeps by (auto simp: stored_keys_def)
  from a b d show ?thesis by blast
qed

theorem create_persists_when_backed_witness:
  "(\<exists>R w'. POST create_request (configured empty_table) = (Json (Key R) 201, w')
        \<and> R \<in> set (stored_keys w'))
   \<and> (\<exists>K s' xs. createApiKey ''K1'' ''prod_abc'' fresh_disk = Inr (K, s')
        \<and> data_file s' = KeysArray xs \<and> K \<in> set xs)
   \<and> (\<exists>R w'. POST create_request unconfigured = (Json (Key R) 201, w')
        \<and> supabase w' = None)"
proof -
  have s: "supabase (configured empty_table) = Some empty_table"
    by (simp add: configured_def)
  have f: "fault empty_table = NoFault" by (simp add: empty_table_def)
  have n: "\<not> falsy (Some ''K1'')" "\<not> falsy (Some ''prod_abcdefghijk'')"
    by (simp_all add: falsy_def)
  obtain R w' where p: "POST create_request (configured empty_table) = (Json (Key R) 201, w')"
    unfolding create_request_def using POST_remote_ok [OF s f n] by blast
  have "regular fresh_disk" by (simp add: regular_def fresh_disk_def)
  then obtain K s' where q: "createApiKey ''K1'' ''prod_abc'' fresh_disk = Inr (K, s')"
    using createApiKey_regular by blast
  have u: "supabase unconfigured = None" by (simp add: unconfigured_def)
  note t1 = create_persists_when_backed
    [of "configured empty_table" empty_table create_request R w' "''K1''" "''prod_abc''"
        fresh_disk K s']
  note t2 = create_persists_when_backed
    [of unconfigured empty_table create_request echoed_key after_create "''K1''" "''prod_abc''"
        fresh_disk K s']
  have a: "R \<in> set (stored_keys w')" using t1 s p by blast
  have b: "\<exists>xs. data_file s' = KeysArray xs \<and> K \<in> set xs" using t1 q by blast
  have c: "supabase after_create = None" using t2 u POST_example by blast
  from a b c p q POST_example show ?thesis by blast
qed

text \<open>
  The claim as written fails for the handler without a configured client: the create
  request is answered 201 with a new record, no backend holds the record, and the list
  handler answers the mock data, which does not contain it.
\<close>

theorem create_unconfigured_not_stored:
  "POST create_request unconfigured = (Json (Key echoed_key) 201, after_create)
   \<and> echoed_key \<notin> set (stored_keys after_create)
   \<and> GET after_create = (Json (Keys mockApiKeys) 200, after_create)
   \<and> echoed_key \<notin> set mockApiKeys"
proof -
  have u: "supabase after_create = None" by (simp add: after_create_def unconfigured_def)
  have a: "echoed_key \<notin> set (stored_keys after_create)" by (simp add: stored_keys_def u)
  have b: "GET after_create = (Json (Keys mockApiKeys) 200, after_create)"
    by (rule GET_unconfigured [OF u])
  have c: "echoed_key \<notin> set mockApiKeys" by (simp add: echoed_key_def mockApiKeys_def)
  from POST_example a b c show ?thesis by blast
qed

lemma POST_unreadable_body:
  "POST BadJson w = (internal_error, w)" "POST NullBody w = (internal_error, w)"
  by (simp_all add: POST_def)

text \<open>
  Claim C8, as the code has it. For a create request whose body is a JSON object, the
  handler \<open>POST\<close> answers 400 with the message that name and value are required whenever the
  name or the value is absent, null or the empty string, and leaves the state untouched:
  the check comes before the client is looked up, so it holds with and without a configured
  client, and no backend is written. \<open>createApiKey\<close> of the file store makes no such check:
  whenever it returns, the record carries the name and the value it was given, empty or
  not, and on a path in a regular state it does return.
\<close>

theorem POST_validates_first:
  "(name = None \<or> name = Some [] \<or> val = None \<or> val = Some []
      \<longrightarrow> POST (Object name val) w = (Json (Message required_message) 400, w))
   \<and> POST (Object (Some '''') (Some ''v'')) w = (Json (Message required_message) 400, w)
   \<and> POST (Object (Some ''n'') (Some '''')) w = (Json (Message required_message) 400, w)
   \<and> (createApiKey n v s = Inr (K, s') \<longrightarrow> key_name K = n \<and> key_value K = v)
   \<and> (regular s \<longrightarrow> (\<exists>K s'. createApiKey n v s = Inr (K, s')))"
proof -
  have a: "name = None \<or> name = Some [] \<or> val = None \<or> val = Some []
      \<longrightarrow> POST (Object name val) w = (Json (Message required_message) 400, w)"
    by (auto simp: POST_invalid falsy_def)
  have b: "POST (Object (Some '''') (Some ''v'')) w = (Json (Message required_message) 400, w)"
    "POST (Object (Some ''n'') (Some '''')) w = (Json (Message required_message) 400, w)"
    by (simp_all add: POST_invalid falsy_def)
  have c: "createApiKey n v s = Inr (K, s') \<longrightarrow> key_name K = n \<and> key_value K = v"
  proof
    assume k: "createApiKey n v s = Inr (K, s')"
    then obtain xs s1 where r: "readAllApiKeys s = Inr (xs, s1)"
      by (cases "readAllApiKeys s") (auto simp: createApiKey_def)
    from createApiKey_written(2,3) [OF k r] show "key_name K = n \<and> key_value K = v" by simp
  qed
  have d: "regular s \<longrightarrow> (\<exists>K s'. createApiKey n v s = Inr (K, s'))"
    using createApiKey_regular by blast
  from a b c d show ?thesis by blast
qed

theorem POST_validates_first_witness:
  "POST (Object None (Some ''v'')) unconfigured = (Json (Message required_message) 400, unconfigured)
   \<and> POST (Object (Some ''n'') (Some [])) (configured empty_table) =
       (Json (Message required_message) 400, configured empty_table)
   \<and> (\<exists>K s'. createApiKey [] ''v'' one_key_disk = Inr (K, s')
         \<and> key_name K = [] \<and> key_value K = ''v'')"
proof -
  have h1: "None = None \<or> None = Some [] \<or> Some ''v'' = None \<or> Some ''v'' = Some []"
    by simp
  have h2: "Some ''n'' = None \<or> Some ''n'' = Some [] \<or> Some [] = None \<or> Some [] = Some []"
    by simp
  have h3: "regular one_key_disk" by (simp add: regular_def one_key_disk_def)
  note t1 = POST_validates_first [of None "Some ''v''" unconfigured "[]" "''v''" one_key_disk]
  note t2 = POST_validates_first
    [of "Some ''n''" "Some []" "configured empty_table" "[]" "''v''" one_key_disk]
  have a: "POST (Object None (Some ''v'')) unconfigured =
             (Json (Message required_message) 400, unconfigured)"
    using t1 [THEN conjunct1] h1 by (rule mp)
  have b: "POST (Object (Some ''n'') (Some [])) (configured empty_table) =
       (Json (Message required_message) 400, configured empty_table)"
    using t2 [THEN conjunct1] h2 by (rule mp)
  obtain K s' where k: "createApiKey [] ''v'' one_key_disk = Inr (K, s')"
    using t1 [THEN conjunct2, THEN conjunct2, THEN conjunct2, THEN conjunct2] h3 by blast
  have c: "key_name K = [] \<and> key_value K = ''v''"
    using POST_validates_first
      [of None "Some ''v''" unconfigured "[]" "''v''" one_key_disk K s',
       THEN conjunct2, THEN conjunct2, THEN conjunct2, THEN conjunct1] k
    by (rule mp)
  from a b c k show ?thesis by blast
qed

text \<open>
  The claim as written fails for \<open>createApiKey\<close>: called with the empty name on a store
  holding one record, it returns a new record with that empty name and writes it to the
  file after the one already there.
\<close>

theorem createApiKey_accepts_empty_name:
  "createApiKey [] ''v'' one_key_disk =
     Inr (nameless_key,
          one_key_disk\<lparr>tick := 2, data_file := KeysArray [stored_key, nameless_key]\<rparr>)
   \<and> key_name nameless_key = []"
proof -
  have r: "readAllApiKeys one_key_disk = Inr ([stored_key], one_key_disk)"
    by (rule readAllApiKeys_stable) (simp_all add: one_key_disk_def)
  show ?thesis
    unfolding createApiKey_eq [OF r]
    by (simp add: nameless_key_def one_key_disk_def fresh_disk_def sample_uuid_def
        sample_iso_def eval_nat_numeral)
qed

lemma same_client: "supabase w = Some c \<Longrightarrow> w\<lparr>supabase := Some c\<rparr> = w"
  by (cases w) auto

lemma GET_by_id_healthy:
  assumes "supabase w = Some c" "fault c = NoFault"
  shows "GET_by_id ident w =
     (case filter (\<lambda>r. row_id r = ident) (rows c) of
        [] \<Rightarrow> (not_found, w)
      | [r] \<Rightarrow> (Json (Key (toApiKey r)) 200, w)
      | _ \<Rightarrow> (Json (Message PGRST116) 500, w))"
  using assms by (simp add: GET_by_id_def select_maybeSingle_def split: list.splits)

lemma filter_id_none: "ident \<notin> row_id ` set rs \<Longrightarrow> filter (\<lambda>r. row_id r = ident) rs = []"
  by (induction rs) auto



lemma GET_by_id_missing:
  assumes "supabase w = Some c" "fault c = NoFault" "ident \<notin> row_id ` set (rows c)"
  shows "GET_by_id ident w = (not_found, w)"
  by (simp add: GET_by_id_healthy [OF assms(1,2)] filter_id_none [OF assms(3)])

lemma GET_by_id_unconfigured: "supabase w = None \<Longrightarrow> GET_by_id ident w = (not_configured, w)"
  by (simp add: GET_by_id_def)



lemma PUT_missing:
  assumes "supabase w = Some c" "fault c = NoFault" "ident \<notin> row_id ` set (rows c)"
    "request \<noteq> BadJson"
  shows "PUT ident request w =
     (Json (Message PGRST116) 500, w\<lparr>clock_reads := Suc (clock_reads w)\<rparr>)"
proof -
  have s: "supabase (w\<lparr>clock_reads := Suc (clock_reads w)\<rparr>) = Some c"
    using assms(1) by simp
  show ?thesis
    using assms(2,4) filter_id_none [OF assms(3)] same_client [OF s]
    by (cases request)
       (simp_all add: PUT_def new_Date_toISOString_def update_single_def assms(1) Let_def)
qed



text \<open>
  Claim C5, as the code has it. A create followed by a lookup with the returned id gives the
  created record back, with the name and value of the input and equal creation and update
  times, in two cases: in the file store, when the id drawn for the new record is not already
  the id of a stored record; and through the handlers with a configured client, when the id
  the database assigns is not already in the table. (With no client configured nothing of
  the kind holds: see the counterexample.)
\<close>

theorem create_then_get_roundtrip:
  "(createApiKey name val s = Inr (K, s') \<and> readAllApiKeys s = Inr (xs, s1)
      \<and> key_id K \<notin> key_id ` set xs
      \<longrightarrow> (\<exists>s''. getApiKeyById (key_id K) s' = Inr (Some K, s''))
          \<and> key_name K = name \<and> key_value K = val \<and> createdAt K = updatedAt K)
   \<and> (supabase w = Some c \<and> POST (Object name' val') w = (Json (Key R) 201, w')
      \<and> key_id R \<notin> row_id ` set (rows c)
      \<longrightarrow> GET_by_id (key_id R) w' = (Json (Key R) 200, w')
          \<and> name' = Some (key_name R) \<and> key_name R \<noteq> []
          \<and> val' = Some (key_value R) \<and> key_value R \<noteq> []
          \<and> createdAt R = updatedAt R)"
proof -
  have a: "createApiKey name val s = Inr (K, s') \<and> readAllApiKeys s = Inr (xs, s1)
      \<and> key_id K \<notin> key_id ` set xs
      \<longrightarrow> (\<exists>s''. getApiKeyById (key_id K) s' = Inr (Some K, s''))
          \<and> key_name K = name \<and> key_value K = val \<and> createdAt K = updatedAt K"
  proof
    assume h: "createApiKey name val s = Inr (K, s') \<and> readAllApiKeys s = Inr (xs, s1)
      \<and> key_id K \<notin> key_id ` set xs"
    then have k: "createApiKey name val s = Inr (K, s')" and r: "readAllApiKeys s = Inr (xs, s1)"
      and fresh: "key_id K \<notin> key_id ` set xs" by simp_all
    have written: "data_file s' = KeysArray (xs @ [K])" by (rule createApiKey_written(1) [OF k r])
    have again: "readAllApiKeys s' = Inr (xs @ [K], s')"
      by (rule readAllApiKeys_stable [OF written]) simp
    have "\<forall>x \<in> set xs. key_id x \<noteq> key_id K" using fresh by (metis imageI)
    then have "find (\<lambda>k. key_id k = key_id K) (xs @ [K]) = Some K"
      by (intro find_append_fresh) simp_all
    then have "getApiKeyById (key_id K) s' = Inr (Some K, s')"
      by (simp add: getApiKeyById_eq [OF again])
    with createApiKey_written(2,3,4) [OF k r]
    show "(\<exists>s''. getApiKeyById (key_id K) s' = Inr (Some K, s''))
          \<and> key_name K = name \<and> key_value K = val \<and> createdAt K = updatedAt K"
      by blast
  qed
  have b: "supabase w = Some c \<and> POST (Object name' val') w = (Json (Key R) 201, w')
      \<and> key_id R \<notin> row_id ` set (rows c)
      \<longrightarrow> GET_by_id (key_id R) w' = (Json (Key R) 200, w')
          \<and> name' = Some (key_name R) \<and> key_name R \<noteq> []
          \<and> val' = Some (key_value R) \<and> key_value R \<noteq> []
          \<and> createdAt R = updatedAt R"
  proof
    assume h: "supabase w = Some c \<and> POST (Object name' val') w = (Json (Key R) 201, w')
      \<and> key_id R \<notin> row_id ` set (rows c)"
    then have s: "supabase w = Some c"
      and p: "POST (Object name' val') w = (Json (Key R) 201, w')"
      and fresh: "key_id R \<notin> row_id ` set (rows c)" by simp_all
    from POST_created_remote [OF p s] have f: "fault c = NoFault"
      and n: "\<not> falsy name'" "\<not> falsy val'" by auto
    define r where "r = \<lparr>row_id = gen_id c (serial c), row_name = string_of name',
               row_value = string_of val', created_at = db_now c (serial c),
               updated_at = (if stamps_updated_at c then Some (db_now c (serial c)) else None)\<rparr>"
    define c' where "c' = c\<lparr>rows := rows c @ [r], serial := Suc (serial c)\<rparr>"
    from p have R: "R = toApiKey r" and w': "w' = w\<lparr>supabase := Some c'\<rparr>"
      unfolding POST_remote_ok [OF s f n] by (simp_all add: r_def c'_def toApiKey_def)
    have idR: "key_id R = row_id r" by (simp add: R toApiKey_def)
    have s': "supabase w' = Some c'" and f': "fault c' = NoFault"
      by (simp_all add: w' c'_def f)
    have "filter (\<lambda>x. row_id x = key_id R) (rows c') = [r]"
      using filter_id_none [OF fresh] by (simp add: c'_def idR)
    then have g: "GET_by_id (key_id R) w' = (Json (Key R) 200, w')"
      by (simp add: GET_by_id_healthy [OF s' f'] R)
    have fields: "name' = Some (key_name R) \<and> key_name R \<noteq> []
          \<and> val' = Some (key_value R) \<and> key_value R \<noteq> []
          \<and> createdAt R = updatedAt R"
      using n by (auto simp: R toApiKey_def r_def string_of_def falsy_def split: option.splits)
    from g fields
    show "GET_by_id (key_id R) w' = (Json (Key R) 200, w')
          \<and> name' = Some (key_name R) \<and> key_name R \<noteq> []
          \<and> val' = Some (key_value R) \<and> key_value R \<noteq> []
          \<and> createdAt R = updatedAt R"
      by blast
  qed
  from a b show ?thesis by blast
qed

theorem create_then_get_roundtrip_witness:
  "(\<exists>K s' s''. createApiKey ''K1'' ''prod_abc'' fresh_disk = Inr (K, s')
        \<and> getApiKeyById (key_id K) s' = Inr (Some K, s'')
        \<and> key_name K = ''K1'' \<and> key_value K = ''prod_abc'' \<and> createdAt K = updatedAt K)
   \<and> (\<exists>R w'. POST create_request (configured one_row_table) = (Json (Key R) 201, w')
        \<and> GET_by_id (key_id R) w' = (Json (Key R) 200, w')
        \<and> key_name R = ''K1'' \<and> key_value R = ''prod_abcdefghijk''
        \<and> createdAt R = updatedAt R)"
proof -
  have rd: "readAllApiKeys fresh_disk =
     Inr (seed_records fresh_disk,
          fresh_disk\<lparr>tick := tick fresh_disk + 7,
                      data_file := KeysArray (seed_records fresh_disk)\<rparr>)"
    by (rule readAllApiKeys_seeds) (simp add: fresh_disk_def)
  have "regular fresh_disk" by (simp add: regular_def fresh_disk_def)
  then obtain K s' where k: "createApiKey ''K1'' ''prod_abc'' fresh_disk = Inr (K, s')"
    using createApiKey_regular by blast
  have "key_id K = sample_uuid 8"
    using createApiKey_written(5) [OF k rd] by (simp add: fresh_disk_def)
  then have fresh: "key_id K \<notin> key_id ` set (seed_records fresh_disk)"
    by (simp add: seed_records_def fresh_disk_def sample_uuid_def eval_nat_numeral)
  have s: "supabase (configured one_row_table) = Some one_row_table"
    by (simp add: configured_def)
  have f: "fault one_row_table = NoFault" by (simp add: one_row_table_def empty_table_def)
  have n: "\<not> falsy (Some ''K1'')" "\<not> falsy (Some ''prod_abcdefghijk'')"
    by (simp_all add: falsy_def)
  obtain R w' where p:
    "POST (Object (Some ''K1'') (Some ''prod_abcdefghijk'')) (configured one_row_table) =
       (Json (Key R) 201, w')"
    and idR: "key_id R = gen_id one_row_table (serial one_row_table)"
    using POST_remote_ok [OF s f n] by force
  have fresh': "key_id R \<notin> row_id ` set (rows one_row_table)"
    by (simp add: idR one_row_table_def empty_table_def stored_row_def sample_uuid_def)
  note t = create_then_get_roundtrip
    [of "''K1''" "''prod_abc''" fresh_disk K s' "seed_records fresh_disk"
        "fresh_disk\<lparr>tick := tick fresh_disk + 7,
                    data_file := KeysArray (seed_records fresh_disk)\<rparr>"
        "configured one_row_table" one_row_table "Some ''K1''" "Some ''prod_abcdefghijk''" R w']
  have a: "\<exists>s''. getApiKeyById (key_id K) s' = Inr (Some K, s'')"
    "key_name K = ''K1''" "key_value K = ''prod_abc''" "createdAt K = updatedAt K"
    using t k rd fresh by blast+
  have b: "GET_by_id (key_id R) w' = (Json (Key R) 200, w')"
    "Some ''K1'' = Some (key_name R)" "Some ''prod_abcdefghijk'' = Some (key_value R)"
    "createdAt R = updatedAt R"
    using t s p fresh' by blast+
  from a b k p show ?thesis unfolding create_request_def by auto
qed

text \<open>
  The claim as written fails for the handler without a configured client: the create
  request is answered 201 with a record whose value is the first ten characters of the
  input followed by three dots, and the lookup with the returned id answers 503.
\<close>

theorem create_unconfigured_no_roundtrip:
  "POST create_request unconfigured = (Json (Key echoed_key) 201, after_create)
   \<and> create_request = Object (Some ''K1'') (Some ''prod_abcdefghijk'')
   \<and> key_value echoed_key = ''prod_abcde...''
   \<and> key_value echoed_key \<noteq> ''prod_abcdefghijk''
   \<and> GET_by_id (key_id echoed_key) after_create = (not_configured, after_create)"
proof -
  have u: "supabase after_create = None" by (simp add: after_create_def unconfigured_def)
  have a: "key_value echoed_key = ''prod_abcde...''"
    "key_value echoed_key \<noteq> ''prod_abcdefghijk''"
    by (simp_all add: echoed_key_def)
  from POST_example create_request_def a GET_by_id_unconfigured [OF u]
  show ?thesis by blast
qed

text \<open>
  The update of the file store, for the record: an id that no listed record has gives no
  record and no write; otherwise, the file being writable, the first record with the id is
  rewritten, keeping its id and creation time, taking the name and the value from the
  partial where it has them and from the record where it does not, and always taking the
  update time from the clock.
\<close>

lemma updateApiKey_fields:
  assumes "readAllApiKeys s = Inr (xs, s1)"
  shows "(ident \<notin> key_id ` set xs \<longrightarrow> updateApiKey ident name val s = Inr (None, s1))
    \<and> (ident \<in> key_id ` set xs \<and> data_file s1 = KeysArray xs \<longrightarrow>
         (\<exists>i K s'. findIndex (\<lambda>k. key_id k = ident) xs = Some i
            \<and> updateApiKey ident name val s = Inr (Some K, s')
            \<and> data_file s' = KeysArray (xs[i := K])
            \<and> key_id K = ident \<and> createdAt K = createdAt (xs ! i)
            \<and> key_name K = (case name of Some n \<Rightarrow> n | None \<Rightarrow> key_name (xs ! i))
            \<and> key_value K = (case val of Some v \<Rightarrow> v | None \<Rightarrow> key_value (xs ! i))
            \<and> updatedAt K = now_iso s1 (tick s1)))"
proof (intro conjI impI)
  assume "ident \<notin> key_id ` set xs"
  then show "updateApiKey ident name val s = Inr (None, s1)"
    by (rule updateApiKey_missing [OF assms])
next
  assume h: "ident \<in> key_id ` set xs \<and> data_file s1 = KeysArray xs"
  then have "findIndex (\<lambda>k. key_id k = ident) xs \<noteq> None"
    by (auto simp: findIndex_None_iff)
  then obtain i where i: "findIndex (\<lambda>k. key_id k = ident) xs = Some i" by blast
  from findIndex_Some [OF i] have "key_id (xs ! i) = ident" by simp
  with i show "\<exists>i K s'. findIndex (\<lambda>k. key_id k = ident) xs = Some i
            \<and> updateApiKey ident name val s = Inr (Some K, s')
            \<and> data_file s' = KeysArray (xs[i := K])
            \<and> key_id K = ident \<and> createdAt K = createdAt (xs ! i)
            \<and> key_name K = (case name of Some n \<Rightarrow> n | None \<Rightarrow> key_name (xs ! i))
            \<and> key_value K = (case val of Some v \<Rightarrow> v | None \<Rightarrow> key_value (xs ! i))
            \<and> updatedAt K = now_iso s1 (tick s1)"
    by (simp add: updateApiKey_found [OF assms i conjunct2 [OF h]])
qed

text \<open>
  The update handler on a table that has exactly one row with the id: the row is rewritten
  in the same way, with the update time read from the handler's clock.
\<close>

lemma PUT_single_row:
  assumes "supabase w = Some c" "fault c = NoFault"
    "filter (\<lambda>r. row_id r = ident) (rows c) = [r]"
  shows "fst (PUT ident (Object name val) w) =
     Json (Key \<lparr>key_id = row_id r,
                 key_name = (case name of Some n \<Rightarrow> n | None \<Rightarrow> row_name r),
                 key_value = (case val of Some v \<Rightarrow> v | None \<Rightarrow> row_value r),
                 createdAt = created_at r,
                 updatedAt = date_iso w (clock_reads w)\<rparr>) 200"
  using assms
  by (simp add: PUT_def new_Date_toISOString_def update_single_def apply_updates_def
      toApiKey_def Let_def)




text \<open>
  Claim C6. The claim holds in the file store, and fails through the handlers with a
  configured client: an update of an id that no row has is answered 500 with the client's
  error for a result of no rows, where the claim says absent. The handler does test for a
  missing row afterwards (\<^verbatim>\<open>if (!data)\<close>, answered 404), but asks for the result with
  \<^verbatim>\<open>.single()\<close>, under which that test is never reached; the lookup handler asks with
  \<^verbatim>\<open>.maybeSingle()\<close> and does answer 404. Below: the table holds the one row \<open>k1\<close>; the
  update of \<open>k2\<close> is answered 500, while the lookup of \<open>k2\<close> is answered 404 and the file
  store's update of \<open>k2\<close> returns no record.
\<close>

theorem PUT_missing_id_answers_500:
  "fst (PUT ''k2'' rename_request (configured one_row_table)) = Json (Message PGRST116) 500
   \<and> fst (GET_by_id ''k2'' (configured one_row_table)) = Json (Message ''Not found'') 404
   \<and> updateApiKey ''k2'' (Some ''K1b'') None one_key_disk = Inr (None, one_key_disk)"
proof -
  have s: "supabase (configured one_row_table) = Some one_row_table"
    by (simp add: configured_def)
  have f: "fault one_row_table = NoFault" by (simp add: one_row_table_def empty_table_def)
  have j: "''k2'' \<notin> row_id ` set (rows one_row_table)"
    by (simp add: one_row_table_def stored_row_def)
  have a: "fst (PUT ''k2'' rename_request (configured one_row_table)) =
             Json (Message PGRST116) 500"
    by (simp add: PUT_missing [OF s f j] rename_request_def)
  have b: "fst (GET_by_id ''k2'' (configured one_row_table)) = Json (Message ''Not found'') 404"
    by (simp add: GET_by_id_missing [OF s f j] not_found_def)
  have r: "readAllApiKeys one_key_disk = Inr ([stored_key], one_key_disk)"
    by (rule readAllApiKeys_stable) (simp_all add: one_key_disk_def)
  have c: "updateApiKey ''k2'' (Some ''K1b'') None one_key_disk = Inr (None, one_key_disk)"
    by (rule updateApiKey_missing [OF r]) (simp add: stored_key_def)
  from a b c show ?thesis by blast
qed


end
